theory Spec2Isabelle
  imports Main
begin

section \<open>JavaScript strings\<close>

text \<open>
  Strings are character lists. The model covers ASCII text: \<open>toLowerCase\<close> maps the
  letters \<open>A\<close>..\<open>Z\<close> to \<open>a\<close>..\<open>z\<close> and leaves every other character alone, which is
  what \<^verbatim>\<open>String.prototype.toLowerCase\<close> does on ASCII input.
\<close>

definition isUpper :: "char \<Rightarrow> bool" where
  "isUpper c = (65 \<le> (of_char c :: nat) \<and> (of_char c :: nat) \<le> 90)"

definition isLower :: "char \<Rightarrow> bool" where
  "isLower c = (97 \<le> (of_char c :: nat) \<and> (of_char c :: nat) \<le> 122)"

definition isLetter :: "char \<Rightarrow> bool" where
  "isLetter c = (isUpper c \<or> isLower c)"

definition lowerChar :: "char \<Rightarrow> char" where
  "lowerChar c = (if isUpper c then char_of (of_char c + (32::nat)) else c)"

definition toLowerCase :: "string \<Rightarrow> string" where
  "toLowerCase s = map lowerChar s"

text \<open>\<^verbatim>\<open>s.endsWith(suf)\<close>\<close>

definition endsWith :: "string \<Rightarrow> string \<Rightarrow> bool" where
  "endsWith s suf = (length suf \<le> length s \<and> drop (length s - length suf) s = suf)"

text \<open>
  \<^verbatim>\<open>s.replace(pat, rep)\<close> with a string pattern: only the first (leftmost) occurrence
  of \<open>pat\<close> is replaced; a string without the pattern is returned unchanged. The
  replacement strings of this program contain no \<open>$\<close>, so no substitution pattern applies.
\<close>

fun replace :: "string \<Rightarrow> string \<Rightarrow> string \<Rightarrow> string" where
  "replace pat rep [] = (if pat = [] then rep else [])"
| "replace pat rep (c # cs) =
     (if take (length pat) (c # cs) = pat then rep @ drop (length pat) (c # cs)
      else c # replace pat rep cs)"

section \<open>Issuer registry: names (config/issuers.js)\<close>

text \<open>
  \<^verbatim>\<open>const name = fileName.replace(".js", "").replace("Verifier", ""); return name.toLowerCase();\<close>
\<close>

definition verifierNameToIssuerId :: "string \<Rightarrow> string" where
  "verifierNameToIssuerId fileName =
     toLowerCase (replace ''Verifier'' '''' (replace ''.js'' '''' fileName))"

text \<open>\<^verbatim>\<open>return fileName.replace(".js", "").replace("Verifier", "");\<close>\<close>

definition verifierNameToDisplayName :: "string \<Rightarrow> string" where
  "verifierNameToDisplayName fileName = replace ''Verifier'' '''' (replace ''.js'' '''' fileName)"

text \<open>
  What the comments of both functions announce: the name with the \<open>Verifier\<close> suffix and the
  \<open>.js\<close> extension removed, that is, without its last eleven characters \<open>Verifier.js\<close>.
\<close>

definition suffixStrippedName :: "string \<Rightarrow> string" where
  "suffixStrippedName fileName = take (length fileName - length ''Verifier.js'') fileName"

section \<open>Errors, console output, configuration\<close>

text \<open>
  An \<^verbatim>\<open>Error\<close> object, of which the program only ever reads the message: what the
  runtime, the HTTP client and the program itself throw. A function that can throw returns
  \<open>js_error + 'a\<close>, with \<open>Inl\<close> for the exception. The values that the code of a verifier
  module can throw when the registry loads it are modelled with the registry.
\<close>

datatype js_error = Error string

fun error_message :: "js_error \<Rightarrow> string" where
  "error_message (Error m) = m"

text \<open>
  Console output of the factory is part of the state: a call of \<^verbatim>\<open>console.error\<close> with
  one argument, a string, appends that string as a line.
\<close>

datatype log_line = Warn string | ErrorLine string

text \<open>
  VerificationConfig, \<^verbatim>\<open>{ method, issuerName }\<close>: a key that is absent (or
  \<^verbatim>\<open>undefined\<close>) is \<open>None\<close>; a key that is present holds a string.
\<close>

record config =
  "method" :: "string option"
  issuerName :: "string option"

definition emptyConfig :: config where
  "emptyConfig = \<lparr>method = None, issuerName = None\<rparr>"

section \<open>Verifier capability (services/verifiers/VerifierInterface.js)\<close>

text \<open>
  \<^verbatim>\<open>path.basename(p, ext)\<close> on POSIX paths, for an extension without a slash: the last
  segment of the path, trailing slashes ignored, without \<open>ext\<close> when the segment ends
  with it and is longer than it; the empty string when the whole path is \<open>ext\<close>.
\<close>

definition lastSegment :: "string \<Rightarrow> string" where
  "lastSegment p =
     rev (takeWhile (\<lambda>c. c \<noteq> CHR ''/'') (dropWhile (\<lambda>c. c = CHR ''/'') (rev p)))"

definition basename :: "string \<Rightarrow> string \<Rightarrow> string" where
  "basename p ext =
     (if ext \<noteq> [] \<and> ext = p then []
      else let b = lastSegment p in
        if ext \<noteq> [] \<and> length ext < length b \<and> endsWith b ext
        then take (length b - length ext) b else b)"

text \<open>The fields the constructor of \<^verbatim>\<open>VerifierInterface\<close> sets; \<^verbatim>\<open>null\<close> is \<open>None\<close>.\<close>

record verifier_instance =
  inst_config :: config
  inst_title :: "string option"
  inst_filename :: "string option"

definition VerifierInterface :: "config \<Rightarrow> string option \<Rightarrow> verifier_instance" where
  "VerifierInterface cfg filename =
     \<lparr>inst_config = cfg, inst_title = None, inst_filename = filename\<rparr>"

definition setTitle :: "string \<Rightarrow> verifier_instance \<Rightarrow> verifier_instance" where
  "setTitle t v = v\<lparr>inst_title := Some t\<rparr>"

text \<open>
  A string option is truthy when it is a non-empty string. \<open>mainFilename\<close> is
  \<^verbatim>\<open>require.main && require.main.filename\<close>, a fact of the running process.
\<close>

definition truthyStr :: "string option \<Rightarrow> bool" where
  "truthyStr s = (case s of None \<Rightarrow> False | Some t \<Rightarrow> t \<noteq> [])"

definition getTitle :: "string option \<Rightarrow> verifier_instance \<Rightarrow> string" where
  "getTitle mainFilename v =
     (if truthyStr (inst_title v) then the (inst_title v)
      else if truthyStr (inst_filename v) then basename (the (inst_filename v)) ''.js''
      else if truthyStr mainFilename then basename (the mainFilename) ''.js''
      else ''UnknownVerifier'')"

section \<open>Offline signature verifier: construction (offline-verifier/SignatureVerifier.js)\<close>

text \<open>
  \<^verbatim>\<open>super(config, __filename); if (_title) this.setTitle(_title);\<close> with the module
  constant \<^verbatim>\<open>_title = "sunbird-rc"\<close>. \<open>filename\<close> is the module's \<^verbatim>\<open>__filename\<close>.
\<close>

definition signature_title :: string where
  "signature_title = ''sunbird-rc''"

definition SignatureVerifier :: "string \<Rightarrow> config \<Rightarrow> verifier_instance" where
  "SignatureVerifier filename cfg =
     (let v = VerifierInterface cfg (Some filename)
      in if signature_title \<noteq> [] then setTitle signature_title v else v)"

section \<open>Issuer registry: discovery (config/issuers.js)\<close>

datatype issuer_type = Online | Offline

record issuer =
  issuer_id :: string
  issuer_name :: string
  issuer_title :: string
  issuer_type :: issuer_type
  issuer_description :: string

text \<open>
  Loading a verifier module runs code the registry does not control, and JavaScript can
  throw any value: an object with a string \<open>message\<close> (every \<^verbatim>\<open>Error\<close> is one),
  \<^verbatim>\<open>null\<close>, \<^verbatim>\<open>undefined\<close>, or a value without a \<open>message\<close> (a thrown string, say).
  \<open>thrownMessage\<close> is the read \<^verbatim>\<open>error.message\<close> in a \<^verbatim>\<open>catch\<close> block: on \<^verbatim>\<open>null\<close> and
  \<^verbatim>\<open>undefined\<close> the read itself throws a TypeError, on a value without message it gives
  \<^verbatim>\<open>undefined\<close> (\<open>None\<close>).
\<close>

datatype thrown = Thrown js_error | ThrownNull | ThrownUndefined | ThrownValue

fun thrownMessage :: "thrown \<Rightarrow> js_error + string option" where
  "thrownMessage (Thrown e) = Inr (Some (error_message e))"
| "thrownMessage ThrownNull = Inl (Error ''Cannot read properties of null (reading 'message')'')"
| "thrownMessage ThrownUndefined =
     Inl (Error ''Cannot read properties of undefined (reading 'message')'')"
| "thrownMessage ThrownValue = Inr None"

text \<open>
  The console of the registry. \<^verbatim>\<open>console.warn\<close> and \<^verbatim>\<open>console.error\<close> format their
  first argument with the further ones, and discovery puts a file name into the first
  argument; so a call is recorded with the arguments it is given, not with the line that
  is printed. An argument that is \<^verbatim>\<open>undefined\<close> is \<open>None\<close>.
\<close>

datatype console_call = ConsoleWarn "string option list" | ConsoleError "string option list"

text \<open>
  What discovery reads from the file system, per file of a verifier directory:
  the outcome of \<^verbatim>\<open>require(path.join(dir, file))\<close> followed by \<^verbatim>\<open>new VerifierClass()\<close>
  (an instance, or the value either of them throws), and the outcome of
  \<^verbatim>\<open>fs.readFileSync(filePath, "utf8")\<close>. A directory is the outcome of
  \<^verbatim>\<open>fs.readdirSync\<close> and the modules behind its file names. The file system functions
  of the runtime throw \<^verbatim>\<open>Error\<close> objects only. An instance is one of
  \<^verbatim>\<open>VerifierInterface\<close> with a string as title; a class without \<^verbatim>\<open>getTitle\<close> makes
  the \<^verbatim>\<open>try\<close> block throw a TypeError, which is a thrown \<^verbatim>\<open>Error\<close> like any other.
\<close>

record verifier_module =
  instantiate :: "thrown + verifier_instance"
  readFileSync :: "js_error + string"

record directory =
  readdirSync :: "js_error + string list"
  module_of :: "string \<Rightarrow> verifier_module"

text \<open>
  The title scan of the fallback,
  \<^verbatim>\<open>fileContent.match(/const\s+_title\s*=\s*["']([^"']+)["']/)\<close>, capture group 1 of the
  leftmost match. Every greedy repetition of the pattern is followed by a character outside
  its own class, so the match at a position is found without backtracking. \<open>\s\<close> is taken
  over ASCII: blank, tab, line feed, vertical tab, form feed, carriage return.
\<close>

definition isSpace :: "char \<Rightarrow> bool" where
  "isSpace c = (c = CHR '' '' \<or> (9 \<le> (of_char c :: nat) \<and> (of_char c :: nat) \<le> 13))"

definition isQuote :: "char \<Rightarrow> bool" where
  "isQuote c = (c = CHR 0x22 \<or> c = CHR 0x27)"

definition matchTitleAt :: "string \<Rightarrow> string option" where
  "matchTitleAt s =
     (if take 5 s \<noteq> ''const'' then None
      else let r1 = drop 5 s; r2 = dropWhile isSpace r1 in
      if takeWhile isSpace r1 = [] \<or> take 6 r2 \<noteq> ''_title'' then None
      else let r3 = dropWhile isSpace (drop 6 r2) in
      if take 1 r3 \<noteq> ''='' then None
      else case dropWhile isSpace (drop 1 r3) of
        [] \<Rightarrow> None
      | q # r4 \<Rightarrow>
          if \<not> isQuote q then None
          else let t = takeWhile (\<lambda>c. \<not> isQuote c) r4
          in if t = [] \<or> dropWhile (\<lambda>c. \<not> isQuote c) r4 = [] then None else Some t)"

fun extractTitle :: "string \<Rightarrow> string option" where
  "extractTitle [] = None"
| "extractTitle (c # cs) =
     (case matchTitleAt (c # cs) of Some t \<Rightarrow> Some t | None \<Rightarrow> extractTitle cs)"

text \<open>
  The \<^verbatim>\<open>catch\<close> block of the per-file \<^verbatim>\<open>try\<close>, from the call of \<^verbatim>\<open>console.warn\<close> up
  to the title; \<open>msg\<close> is the value of \<^verbatim>\<open>error.message\<close>, read before the call. The block
  warns, defaults the title to the file name without extension, and replaces it by the
  scanned title when the file can be read and the scan matches; a failed read is warned
  about and swallowed.
\<close>

definition fallbackTitle ::
  "string \<Rightarrow> verifier_module \<Rightarrow> string option \<Rightarrow> string \<times> console_call list" where
  "fallbackTitle file m msg =
     (let w1 = ConsoleWarn
                 [Some (''Warning: Could not instantiate verifier '' @ file
                        @ '', attempting to extract title from file:''), msg];
          filenameDerivedTitle = basename file ''.js''
      in case readFileSync m of
           Inr fileContent \<Rightarrow>
             (case extractTitle fileContent of
                Some t \<Rightarrow> (t, [w1])
              | None \<Rightarrow> (filenameDerivedTitle, [w1]))
         | Inl readError \<Rightarrow>
             (filenameDerivedTitle,
              [w1, ConsoleWarn [Some (''Could not read file to extract title: ''
                                      @ error_message readError)]]))"

text \<open>
  \<^verbatim>\<open>const displayName = title !== filenameDerivedTitle ? title : filenameDerivedName;\<close>
\<close>

definition displayName :: "string \<Rightarrow> string \<Rightarrow> string" where
  "displayName file title =
     (if title \<noteq> basename file ''.js'' then title else verifierNameToDisplayName file)"

text \<open>
  The callback of \<^verbatim>\<open>forEach\<close> on one file of the online directory: the entry it pushes
  and the console calls it makes, or the exception it leaves with. The \<^verbatim>\<open>try\<close> block
  runs when instantiation succeeds, the \<^verbatim>\<open>catch\<close> block when it throws; the first thing
  the \<^verbatim>\<open>catch\<close> block does is read \<^verbatim>\<open>error.message\<close>, and when that read throws, the
  exception leaves the callback before anything is logged or pushed.
\<close>

definition onlineEntry ::
  "string option \<Rightarrow> string \<Rightarrow> verifier_module \<Rightarrow> js_error + issuer \<times> console_call list" where
  "onlineEntry mainFilename file m =
     (case instantiate m of
        Inr verifierInstance \<Rightarrow>
          (let title = getTitle mainFilename verifierInstance
           in Inr (\<lparr>issuer_id = verifierNameToIssuerId file,
                    issuer_name = displayName file title,
                    issuer_title = title,
                    issuer_type = Online,
                    issuer_description = title @ '' credential verification''\<rparr>, []))
      | Inl err \<Rightarrow>
          (case thrownMessage err of
             Inl typeError \<Rightarrow> Inl typeError
           | Inr msg \<Rightarrow>
               (let (title, warnings) = fallbackTitle file m msg
                in Inr (\<lparr>issuer_id = verifierNameToIssuerId file,
                         issuer_name = displayName file title,
                         issuer_title = title,
                         issuer_type = Online,
                         issuer_description = title @ '' credential verification''\<rparr>,
                        warnings))))"

text \<open>The same for the offline directory; here both blocks take the id from the display name.\<close>

definition offlineEntry ::
  "string option \<Rightarrow> string \<Rightarrow> verifier_module \<Rightarrow> js_error + issuer \<times> console_call list" where
  "offlineEntry mainFilename file m =
     (case instantiate m of
        Inr verifierInstance \<Rightarrow>
          (let title = getTitle mainFilename verifierInstance;
               dn = displayName file title
           in Inr (\<lparr>issuer_id = toLowerCase dn,
                    issuer_name = dn,
                    issuer_title = dn,
                    issuer_type = Offline,
                    issuer_description = dn @ '' credential verification''\<rparr>, []))
      | Inl err \<Rightarrow>
          (case thrownMessage err of
             Inl typeError \<Rightarrow> Inl typeError
           | Inr msg \<Rightarrow>
               (let (title, warnings) = fallbackTitle file m msg;
                    dn = displayName file title
                in Inr (\<lparr>issuer_id = toLowerCase dn,
                         issuer_name = dn,
                         issuer_title = title,
                         issuer_type = Offline,
                         issuer_description = title @ '' credential verification''\<rparr>,
                        warnings))))"

text \<open>
  \<^verbatim>\<open>files.forEach(file => { if (file.endsWith("Verifier.js")) { ... issuers.push(...) } })\<close>:
  the state is the \<open>issuers\<close> array and the console. An exception of the callback ends the
  loop; the state reached so far stays, and the exception is returned with it.
\<close>

fun forEachFile ::
  "(string \<Rightarrow> verifier_module \<Rightarrow> js_error + issuer \<times> console_call list)
   \<Rightarrow> (string \<Rightarrow> verifier_module) \<Rightarrow> string list \<Rightarrow> issuer list \<times> console_call list
   \<Rightarrow> (issuer list \<times> console_call list) \<times> js_error option" where
  "forEachFile entry mods [] st = (st, None)"
| "forEachFile entry mods (file # files) (issuers, console) =
     (if endsWith file ''Verifier.js''
      then (case entry file (mods file) of
              Inl e \<Rightarrow> ((issuers, console), Some e)
            | Inr (x, calls) \<Rightarrow> forEachFile entry mods files (issuers @ [x], console @ calls))
      else forEachFile entry mods files (issuers, console))"

text \<open>
  The outer \<^verbatim>\<open>try\<close>/\<^verbatim>\<open>catch\<close> and the final \<^verbatim>\<open>return issuers\<close>. The \<^verbatim>\<open>catch\<close> logs
  what \<^verbatim>\<open>readdirSync\<close> or the loop threw; the array returned holds what was pushed before.
\<close>

definition discoverOnlineVerifiers ::
  "string option \<Rightarrow> directory \<Rightarrow> issuer list \<times> console_call list" where
  "discoverOnlineVerifiers mainFilename dir =
     (case readdirSync dir of
        Inl err \<Rightarrow>
          ([], [ConsoleError [Some ''Error discovering online verifiers:'',
                              Some (error_message err)]])
      | Inr files \<Rightarrow>
          (case forEachFile (onlineEntry mainFilename) (module_of dir) files ([], []) of
             ((issuers, console), None) \<Rightarrow> (issuers, console)
           | ((issuers, console), Some err) \<Rightarrow>
               (issuers, console @ [ConsoleError [Some ''Error discovering online verifiers:'',
                                                  Some (error_message err)]])))"

definition discoverOfflineVerifiers ::
  "string option \<Rightarrow> directory \<Rightarrow> issuer list \<times> console_call list" where
  "discoverOfflineVerifiers mainFilename dir =
     (case readdirSync dir of
        Inl err \<Rightarrow>
          ([], [ConsoleError [Some ''Error discovering offline verifiers:'',
                              Some (error_message err)]])
      | Inr files \<Rightarrow>
          (case forEachFile (offlineEntry mainFilename) (module_of dir) files ([], []) of
             ((issuers, console), None) \<Rightarrow> (issuers, console)
           | ((issuers, console), Some err) \<Rightarrow>
               (issuers, console @ [ConsoleError [Some ''Error discovering offline verifiers:'',
                                                  Some (error_message err)]])))"

text \<open>
  Whether the \<^verbatim>\<open>catch\<close> block of the per-file \<^verbatim>\<open>try\<close> throws on a module, and the files
  the loop gets through: the files ending in \<open>Verifier.js\<close> before the first on which it
  does.
\<close>

definition catchThrows :: "verifier_module \<Rightarrow> bool" where
  "catchThrows m = (case instantiate m of Inl err \<Rightarrow> isl (thrownMessage err) | Inr v \<Rightarrow> False)"

definition listedFiles :: "directory \<Rightarrow> string list \<Rightarrow> string list" where
  "listedFiles dir files =
     takeWhile (\<lambda>f. \<not> catchThrows (module_of dir f)) (filter (\<lambda>f. endsWith f ''Verifier.js'') files)"

section \<open>JSON values and property reads\<close>

text \<open>
  A credential and the body of a remote response are parsed JSON. Numbers are kept to the
  integers. An object is the list of its own properties, looked up by key.
\<close>

datatype json =
  JNull | JBool bool | JNum int | JStr string | JArr "json list" | JObj "(string \<times> json) list"

fun truthy :: "json \<Rightarrow> bool" where
  "truthy JNull = False"
| "truthy (JBool b) = b"
| "truthy (JNum n) = (n \<noteq> 0)"
| "truthy (JStr s) = (s \<noteq> [])"
| "truthy (JArr xs) = True"
| "truthy (JObj kvs) = True"

text \<open>
  Reading \<^verbatim>\<open>obj[key]\<close> on an object literal or a parsed JSON object: the own property
  when there is one, else the member inherited from \<^verbatim>\<open>Object.prototype\<close> when the key
  names one (a function, or for \<^verbatim>\<open>__proto__\<close> the prototype itself: truthy, and not a
  string), else \<^verbatim>\<open>undefined\<close>.
\<close>

datatype 'a lookup = Undefined | Own 'a | Inherited string

definition objectPrototypeKeys :: "string list" where
  "objectPrototypeKeys =
     [''constructor'', ''__defineGetter__'', ''__defineSetter__'', ''hasOwnProperty'',
      ''__lookupGetter__'', ''__lookupSetter__'', ''isPrototypeOf'', ''propertyIsEnumerable'',
      ''toString'', ''valueOf'', ''__proto__'', ''toLocaleString'']"

definition getProp :: "(string \<times> 'a) list \<Rightarrow> string \<Rightarrow> 'a lookup" where
  "getProp obj key =
     (case map_of obj key of
        Some v \<Rightarrow> Own v
      | None \<Rightarrow> if key \<in> set objectPrototypeKeys then Inherited key else Undefined)"

text \<open>
  \<^verbatim>\<open>String(v)\<close>, which is also how a value used as a property key is converted: an array
  joins its elements with commas, \<^verbatim>\<open>null\<close> elements as empty strings.
\<close>

fun digits :: "nat \<Rightarrow> string" where
  "digits n =
     (if n < 10 then [char_of (48 + n)] else digits (n div 10) @ [char_of (48 + n mod 10)])"

declare digits.simps [simp del]

fun toString :: "json \<Rightarrow> string" and joinElements :: "json list \<Rightarrow> string" where
  "toString JNull = ''null''"
| "toString (JBool b) = (if b then ''true'' else ''false'')"
| "toString (JNum n) = (if n < 0 then CHR ''-'' # digits (nat (- n)) else digits (nat n))"
| "toString (JStr s) = s"
| "toString (JArr xs) = joinElements xs"
| "toString (JObj kvs) = ''[object Object]''"
| "joinElements [] = []"
| "joinElements [x] = (if x = JNull then [] else toString x)"
| "joinElements (x # y # ys) =
     (if x = JNull then [] else toString x) @ '','' @ joinElements (y # ys)"

text \<open>
  Converting an object to a primitive (for a property key, for a date) calls its
  \<^verbatim>\<open>toString\<close> and \<^verbatim>\<open>valueOf\<close>. A parsed JSON object inherits both, and the inherited
  \<^verbatim>\<open>valueOf\<close> returns the object itself; an own property \<^verbatim>\<open>toString\<close> shadows the
  inherited method with a value that cannot be called, and the conversion throws a
  TypeError. An array converts by joining its elements, so it throws when an element does.
\<close>

fun toPrimitiveThrows :: "json \<Rightarrow> bool" where
  "toPrimitiveThrows (JObj kvs) = (map_of kvs ''toString'' \<noteq> None)"
| "toPrimitiveThrows (JArr xs) = list_ex toPrimitiveThrows xs"
| "toPrimitiveThrows JNull = False"
| "toPrimitiveThrows (JBool b) = False"
| "toPrimitiveThrows (JNum n) = False"
| "toPrimitiveThrows (JStr s) = False"

definition toPrimitiveError :: js_error where
  "toPrimitiveError = Error ''Cannot convert object to primitive value''"

section \<open>Verification results\<close>

text \<open>
  An entry of \<^verbatim>\<open>errors\<close>. Its \<open>error\<close> field is a text, except that a dictionary read
  can return an inherited member of the dictionary object; its \<open>raw\<close> field is whatever
  value the remote sent as message, or a text.
\<close>

datatype error_text = Text string | Member string

record error_entry =
  error :: error_text
  raw :: json

text \<open>VerificationResult; the key \<^verbatim>\<open>errors\<close> is absent when \<open>errors\<close> is \<open>None\<close>.\<close>

record verification_result =
  success :: bool
  message :: string
  errors :: "error_entry list option"

section \<open>Offline signature verifier: verify (offline-verifier/SignatureVerifier.js)\<close>


section \<open>Online verifier (online-verifiers/JharSevaVerifier.js)\<close>

text \<open>The environment variables the program reads.\<close>

record process_env =
  JHARSEVA_VERIFICATION_API :: "string option"
  JHARSEVA_VERIFICATION_API_TOKEN :: "string option"
  JHARSEVA_EXPIRY_FIELD :: "string option"
  NODE_ENV :: "string option"

record jharseva =
  apiEndpoint :: string
  apiToken :: string
  expiryField :: string

text \<open>
  The constructor: \<^verbatim>\<open>super()\<close> leaves config \<^verbatim>\<open>{}\<close>, title and file name \<^verbatim>\<open>null\<close>;
  a missing endpoint or token throws.
\<close>

definition JharSevaVerifier :: "process_env \<Rightarrow> js_error + jharseva" where
  "JharSevaVerifier env =
     (if \<not> truthyStr (JHARSEVA_VERIFICATION_API env)
      then Inl (Error ''JHARSEVA_VERIFICATION_API environment variable is not set.'')
      else if \<not> truthyStr (JHARSEVA_VERIFICATION_API_TOKEN env)
      then Inl (Error ''JHARSEVA_VERIFICATION_API_TOKEN environment variable is not set.'')
      else Inr \<lparr>apiEndpoint = the (JHARSEVA_VERIFICATION_API env),
                apiToken = the (JHARSEVA_VERIFICATION_API_TOKEN env),
                expiryField = (if truthyStr (JHARSEVA_EXPIRY_FIELD env)
                               then the (JHARSEVA_EXPIRY_FIELD env) else ''validUntil'')\<rparr>)"


definition errorTranslator :: "(string \<times> string) list" where
  "errorTranslator =
     [(''Invalid credential'', ''The credential format is invalid or incomplete.''),
      (''Verification failed'',
       ''The credential could not be verified. Please ensure it is valid and not expired.''),
      (''Service unavailable'',
       ''The JharSeva verification service is temporarily unavailable. Please try again later.''),
      (''Invalid signature'', ''The credential's signature is invalid or has been tampered with.''),
      (''Expired credential'', ''The credential has expired and is no longer valid.'')]"

text \<open>
  The clock and the date parser of the runtime: \<open>now\<close> is the time value of
  \<^verbatim>\<open>new Date()\<close>, \<open>dateParse s\<close> is \<^verbatim>\<open>Date.parse(s)\<close>, \<open>None\<close> when it is \<^verbatim>\<open>NaN\<close>.
\<close>

record clock =
  now :: int
  dateParse :: "string \<Rightarrow> int option"

text \<open>
  The time value of \<^verbatim>\<open>new Date(v)\<close>, \<open>None\<close> for an invalid date. A string is parsed, and
  the empty string is no date on any runtime. Any other value is converted to a primitive
  first, which can throw; a number, \<^verbatim>\<open>null\<close> (zero) or a boolean (zero or one) is the
  time value itself when it lies within 8.64e15 milliseconds of the epoch; the string an
  array or an object converts to is parsed.
\<close>

definition parseString :: "clock \<Rightarrow> string \<Rightarrow> int option" where
  "parseString clk s = (if s = [] then None else dateParse clk s)"

definition timeClip :: "int \<Rightarrow> int option" where
  "timeClip n = (if \<bar>n\<bar> \<le> 8640000000000000 then Some n else None)"

definition newDate :: "clock \<Rightarrow> json \<Rightarrow> js_error + int option" where
  "newDate clk v =
     (if toPrimitiveThrows v then Inl toPrimitiveError
      else case v of
        JStr s \<Rightarrow> Inr (parseString clk s)
      | JNum n \<Rightarrow> Inr (timeClip n)
      | JNull \<Rightarrow> Inr (Some 0)
      | JBool b \<Rightarrow> Inr (Some (if b then 1 else 0))
      | JArr xs \<Rightarrow> Inr (parseString clk (toString (JArr xs)))
      | JObj kvs \<Rightarrow> Inr (parseString clk (toString (JObj kvs))))"

text \<open>
  \<^verbatim>\<open>{ isValid: true }\<close> or \<^verbatim>\<open>{ isValid: false, error: ... }\<close>. A credential is an object,
  or \<open>None\<close> for \<^verbatim>\<open>null\<close>/\<^verbatim>\<open>undefined\<close>. An inherited member as expiry value is truthy
  and makes an invalid date. The only statement of the \<^verbatim>\<open>try\<close> block that can throw is
  \<^verbatim>\<open>new Date(validUpto)\<close>; the \<^verbatim>\<open>catch\<close> turns its exception into a failed check.
\<close>

datatype expiry_check = Valid | Invalid string


type_synonym credential = "(string \<times> json) list option"

definition checkExpiry :: "jharseva \<Rightarrow> clock \<Rightarrow> credential \<Rightarrow> expiry_check" where
  "checkExpiry self clk credential =
     (case credential of
        None \<Rightarrow> Invalid ''Invalid credential structure: missing credential data''
      | Some obj \<Rightarrow>
          (case getProp obj (expiryField self) of
             Undefined \<Rightarrow> Valid
           | Inherited k \<Rightarrow> Invalid ''Invalid expiry date format''
           | Own validUpto \<Rightarrow>
               if \<not> truthy validUpto then Valid
               else (case newDate clk validUpto of
                       Inl e \<Rightarrow> Invalid (''Error checking credential expiry: '' @ error_message e)
                     | Inr None \<Rightarrow> Invalid ''Invalid expiry date format''
                     | Inr (Some expiryDate) \<Rightarrow>
                         if now clk > expiryDate
                         then Invalid ''The credential has expired and is no longer valid.''
                         else Valid)))"

text \<open>
  \<^verbatim>\<open>response?.data?.error\<close> and \<^verbatim>\<open>errObj.message\<close>: no prototype has a member of either
  name, so the read gives the own property of an object and \<^verbatim>\<open>undefined\<close> (\<open>None\<close>) on
  anything else; reading a property of \<^verbatim>\<open>null\<close> throws a TypeError.
\<close>

record response =
  data :: json

definition responseError :: "response \<Rightarrow> json option" where
  "responseError resp = (case data resp of JObj kvs \<Rightarrow> map_of kvs ''error'' | _ \<Rightarrow> None)"

definition errObjMessage :: "json \<Rightarrow> js_error + json option" where
  "errObjMessage errObj =
     (case errObj of
        JNull \<Rightarrow> Inl (Error ''Cannot read properties of null (reading 'message')'')
      | JObj kvs \<Rightarrow> Inr (map_of kvs ''message'')
      | _ \<Rightarrow> Inr None)"

definition truthyOpt :: "json option \<Rightarrow> bool" where
  "truthyOpt v = (case v of None \<Rightarrow> False | Some j \<Rightarrow> truthy j)"

text \<open>
  \<^verbatim>\<open>this.errorTranslator[errObj.message] || "An unknown error occurred during verification."\<close>.
  The message is converted to a property key first (\<^verbatim>\<open>undefined\<close> to the key
  \<open>undefined\<close>), which throws for an object that cannot be converted; every text of the
  dictionary is non-empty, hence truthy.
\<close>

definition propertyKey :: "json option \<Rightarrow> js_error + string" where
  "propertyKey msg =
     (case msg of
        None \<Rightarrow> Inr ''undefined''
      | Some v \<Rightarrow> if toPrimitiveThrows v then Inl toPrimitiveError else Inr (toString v))"

definition translateMessage :: "json option \<Rightarrow> js_error + error_text" where
  "translateMessage msg =
     (case propertyKey msg of
        Inl e \<Rightarrow> Inl e
      | Inr key \<Rightarrow>
          (case getProp errorTranslator key of
             Own t \<Rightarrow> Inr (Text t)
           | Inherited k \<Rightarrow> Inr (Member k)
           | Undefined \<Rightarrow> Inr (Text ''An unknown error occurred during verification.'')))"

definition pushError :: "json \<Rightarrow> js_error + error_entry" where
  "pushError errObj =
     (case errObjMessage errObj of
        Inl e \<Rightarrow> Inl e
      | Inr msg \<Rightarrow>
          (case translateMessage msg of
             Inl e \<Rightarrow> Inl e
           | Inr t \<Rightarrow>
               Inr \<lparr>error = t,
                    raw = (if truthyOpt msg then the msg
                           else JStr ''An unknown error occurred'')\<rparr>))"

text \<open>
  The phrase of an error entry as \<open>pushError\<close> reads it: the \<open>message\<close> of the entry when
  that is a non-empty string.
\<close>

definition entryPhrase :: "json \<Rightarrow> string option" where
  "entryPhrase errObj =
     (case errObjMessage errObj of
        Inr (Some (JStr m)) \<Rightarrow> if m = [] then None else Some m
      | _ \<Rightarrow> None)"

text \<open>\<^verbatim>\<open>error.map(pushError)\<close>: the first element that throws ends the map.\<close>

fun mapPushError :: "json list \<Rightarrow> js_error + error_entry list" where
  "mapPushError [] = Inr []"
| "mapPushError (x # xs) =
     (case pushError x of
        Inl e \<Rightarrow> Inl e
      | Inr y \<Rightarrow> (case mapPushError xs of Inl e \<Rightarrow> Inl e | Inr ys \<Rightarrow> Inr (y # ys)))"

definition formatErrors :: "json option \<Rightarrow> js_error + error_entry list" where
  "formatErrors err =
     (case err of
        None \<Rightarrow> Inr []
      | Some e \<Rightarrow>
          if truthy e \<and> (case e of JArr xs \<Rightarrow> xs \<noteq> [] | _ \<Rightarrow> True)
          then (case e of
                  JArr xs \<Rightarrow> mapPushError xs
                | _ \<Rightarrow> (case pushError e of Inl x \<Rightarrow> Inl x | Inr y \<Rightarrow> Inr [y]))
          else Inr [])"

definition translateResponse :: "response \<Rightarrow> js_error + verification_result" where
  "translateResponse resp =
     (case formatErrors (responseError resp) of
        Inl e \<Rightarrow> Inl e
      | Inr formattedErrors \<Rightarrow>
          if length formattedErrors > 0
          then Inr \<lparr>success = False, message = ''Credential verification failed.'',
                    errors = Some formattedErrors\<rparr>
          else Inr \<lparr>success = True, message = ''Credential verified successfully.'',
                    errors = None\<rparr>)"

text \<open>
  The network: \<open>post\<close> is \<^verbatim>\<open>axios.post\<close>, which resolves with a response or rejects
  with an error. \<open>verify\<close> returns its result together with the requests it sent.
\<close>

record request =
  url :: string
  body :: credential
  authorization :: string
  contentType :: string

definition verify ::
  "jharseva \<Rightarrow> clock \<Rightarrow> (request \<Rightarrow> js_error + response) \<Rightarrow> credential
   \<Rightarrow> verification_result \<times> request list" where
  "verify self clk post credential =
     (case checkExpiry self clk credential of
        Invalid expiryError \<Rightarrow>
          (\<lparr>success = False, message = ''Credential verification failed.'',
            errors = Some [\<lparr>error = Text expiryError,
                            raw = JStr ''Credential expiration check failed''\<rparr>]\<rparr>, [])
      | Valid \<Rightarrow>
          (let req = \<lparr>url = apiEndpoint self, body = credential,
                      authorization = ''Bearer '' @ apiToken self,
                      contentType = ''application/json''\<rparr>;
               caught = (\<lambda>e. \<lparr>success = False, message = ''Verification API error'',
                               errors = Some [\<lparr>error = Text (error_message e),
                                               raw = JStr (error_message e)\<rparr>]\<rparr>)
           in case post req of
                Inl e \<Rightarrow> (caught e, [req])
              | Inr resp \<Rightarrow>
                  (case translateResponse resp of
                     Inl e \<Rightarrow> (caught e, [req])
                   | Inr result \<Rightarrow> (result, [req]))))"

section \<open>Verifier factory (services/verifiers/VerifierInterface.js, VerifierFactory)\<close>

text \<open>
  \<^verbatim>\<open>s.replace(/\.js$/, "")\<close> and the case-insensitive \<^verbatim>\<open>s.replace(/verifier$/i, "")\<close>:
  the suffix is removed when the string ends with it.
\<close>

definition stripSuffix :: "string \<Rightarrow> string \<Rightarrow> string" where
  "stripSuffix suf s = (if endsWith s suf then take (length s - length suf) s else s)"

definition stripSuffixCI :: "string \<Rightarrow> string \<Rightarrow> string" where
  "stripSuffixCI suf s =
     (if endsWith (toLowerCase s) (toLowerCase suf) then take (length s - length suf) s else s)"

text \<open>\<^verbatim>\<open>/^[a-zA-Z]+$/.test(issuerName)\<close>\<close>

definition validIssuerName :: "string \<Rightarrow> bool" where
  "validIssuerName s = (s \<noteq> [] \<and> list_all isLetter s)"

text \<open>
  \<^verbatim>\<open>file.replace(/\.js$/i, "").replace(/verifier$/i, "").toLowerCase()\<close> and
  \<^verbatim>\<open>files.find(file => baseName === normalizedIssuerName)\<close>
\<close>

definition baseName :: "string \<Rightarrow> string" where
  "baseName file = toLowerCase (stripSuffixCI ''verifier'' (stripSuffixCI ''.js'' file))"

definition findMatchingFile :: "string list \<Rightarrow> string \<Rightarrow> string option" where
  "findMatchingFile files issuer = find (\<lambda>file. baseName file = toLowerCase issuer) files"

text \<open>
  What the factory reads: the listing of the online directory, the outcome of
  \<^verbatim>\<open>require(`./online-verifiers/${className}`)\<close> followed by
  \<^verbatim>\<open>new VerifierClass(config)\<close>, whether \<^verbatim>\<open>NODE_ENV\<close> is \<^verbatim>\<open>production\<close>, and the
  file name of the signature verifier's module.
\<close>

record 'v factory_env =
  onlineFiles :: "js_error + string list"
  loadOnline :: "string \<Rightarrow> config \<Rightarrow> js_error + 'v"
  nodeEnv :: "string option"
  signatureFilename :: string

datatype 'v verifier = OnlineInstance string 'v | SignatureInstance verifier_instance

text \<open>
  The \<^verbatim>\<open>try\<close> block, first up to \<^verbatim>\<open>className\<close>, then with the instantiation.
\<close>

definition resolveClassName :: "js_error + string list \<Rightarrow> string \<Rightarrow> js_error + string" where
  "resolveClassName listing issuer =
     (if \<not> validIssuerName issuer then Inl (Error ''Invalid verifier name format'')
      else case listing of
        Inl e \<Rightarrow> Inl e
      | Inr files \<Rightarrow>
          (let matchingFile = findMatchingFile files issuer
           in if \<not> truthyStr matchingFile
              then Inl (Error (''No verifier file found for issuer: '' @ issuer))
              else Inr (stripSuffix ''.js'' (the matchingFile))))"

definition loadVerifier :: "'v factory_env \<Rightarrow> config \<Rightarrow> string \<Rightarrow> js_error + 'v verifier" where
  "loadVerifier env cfg issuer =
     (case resolveClassName (onlineFiles env) issuer of
        Inl e \<Rightarrow> Inl e
      | Inr className \<Rightarrow>
          (case loadOnline env className cfg of
             Inl e \<Rightarrow> Inl e
           | Inr v \<Rightarrow> Inr (OnlineInstance className v)))"

text \<open>
  \<^verbatim>\<open>const { method = "online", issuerName } = config;\<close> and the three branches. The
  \<^verbatim>\<open>catch\<close> of the online branch logs the cause outside production and throws the
  unknown-verifier error in its place.
\<close>

definition getVerifier :: "'v factory_env \<Rightarrow> config \<Rightarrow> (js_error + 'v verifier) \<times> log_line list" where
  "getVerifier env cfg =
     (let method' = (case method cfg of None \<Rightarrow> ''online'' | Some m \<Rightarrow> m)
      in if method' = ''online'' then
           if \<not> truthyStr (issuerName cfg)
           then (Inl (Error ''issuerName is required for online verification''), [])
           else (case loadVerifier env cfg (the (issuerName cfg)) of
                   Inr v \<Rightarrow> (Inr v, [])
                 | Inl err \<Rightarrow>
                     (Inl (Error (''Unknown online verifier: '' @ the (issuerName cfg))),
                      if nodeEnv env \<noteq> Some ''production''
                      then [ErrorLine (''Error loading verifier: '' @ error_message err)] else []))
         else if method' = ''offline''
         then (Inr (SignatureInstance (SignatureVerifier (signatureFilename env) cfg)), [])
         else (Inl (Error (''Unknown verification method: '' @ method')), []))"

section \<open>Example environments\<close>

text \<open>
  The repository as deployed: the offline directory holds \<open>SignatureVerifier.js\<close>, the
  online directory \<open>JharSevaVerifier.js\<close>. \<open>unconfiguredEnv\<close> sets no variable, so the
  online verifier cannot be constructed; \<open>configuredEnv\<close> sets endpoint and token.
\<close>

definition signaturePath :: string where
  "signaturePath = ''/app/src/services/verifiers/offline-verifier/SignatureVerifier.js''"


definition configuredEnv :: process_env where
  "configuredEnv =
     \<lparr>JHARSEVA_VERIFICATION_API = Some ''https://jharseva.example/verify'',
      JHARSEVA_VERIFICATION_API_TOKEN = Some ''secret'',
      JHARSEVA_EXPIRY_FIELD = None, NODE_ENV = None\<rparr>"



definition missingDir :: directory where
  "missingDir =
     \<lparr>readdirSync = Inl (Error ''ENOENT: no such file or directory, scandir''),
      module_of = (\<lambda>f. \<lparr>instantiate = Inl (Thrown (Error ''Cannot find module'')),
                          readFileSync = Inl (Error ''ENOENT: no such file or directory'')\<rparr>)\<rparr>"

text \<open>
  A directory of three verifiers, the second of which throws \<^verbatim>\<open>null\<close> when it is
  loaded (a module whose top level or constructor runs \<^verbatim>\<open>throw null\<close>); the other two
  load and keep their file-name titles.
\<close>

definition nullThrowDir :: directory where
  "nullThrowDir =
     \<lparr>readdirSync = Inr [''aaVerifier.js'', ''bbVerifier.js'', ''ccVerifier.js''],
      module_of = (\<lambda>f.
         if f = ''bbVerifier.js''
         then \<lparr>instantiate = Inl ThrownNull,
               readFileSync = Inr ''throw null;''\<rparr>
         else \<lparr>instantiate = Inr (VerifierInterface emptyConfig (Some (''/app/verifiers/'' @ f))),
               readFileSync = Inr ''module.exports = class extends VerifierInterface {}''\<rparr>)\<rparr>"

definition exampleFactoryEnv :: "jharseva factory_env" where
  "exampleFactoryEnv =
     \<lparr>onlineFiles = Inr [''JharSevaVerifier.js''],
      loadOnline = (\<lambda>className cfg.
         if className = ''JharSevaVerifier'' then JharSevaVerifier configuredEnv
         else Inl (Error (''Cannot find module ./online-verifiers/'' @ className))),
      nodeEnv = NODE_ENV configuredEnv,
      signatureFilename = signaturePath\<rparr>"

text \<open>
  Two further listings of the online directory, with verifiers that all load: one whose
  only verifier has a digit in its name, and one where a file \<open>acme.js\<close> precedes the
  registered \<open>AcmeVerifier.js\<close>.
\<close>

definition numberedFactoryEnv :: "jharseva factory_env" where
  "numberedFactoryEnv =
     \<lparr>onlineFiles = Inr [''Acme2Verifier.js''],
      loadOnline = (\<lambda>className cfg. JharSevaVerifier configuredEnv),
      nodeEnv = NODE_ENV configuredEnv,
      signatureFilename = signaturePath\<rparr>"

definition shadowedFactoryEnv :: "jharseva factory_env" where
  "shadowedFactoryEnv =
     \<lparr>onlineFiles = Inr [''acme.js'', ''AcmeVerifier.js''],
      loadOnline = (\<lambda>className cfg. JharSevaVerifier configuredEnv),
      nodeEnv = NODE_ENV configuredEnv,
      signatureFilename = signaturePath\<rparr>"

text \<open>
  A configured online verifier, a clock on 2026-01-01 whose parser knows two ISO dates, a
  credential that expired in 2020, one without expiry field, one whose expiry field is the
  number 0, and a remote that accepts.
\<close>

definition exampleSelf :: jharseva where
  "exampleSelf = \<lparr>apiEndpoint = ''https://jharseva.example/verify'', apiToken = ''secret'',
                   expiryField = ''validUntil''\<rparr>"

definition exampleClock :: clock where
  "exampleClock =
     \<lparr>now = 1767225600000,
      dateParse = (\<lambda>s. if s = ''2020-01-01T00:00:00Z'' then Some 1577836800000
                        else if s = ''2030-01-01T00:00:00Z'' then Some 1893456000000
                        else None)\<rparr>"

definition expiredCredential :: "(string \<times> json) list" where
  "expiredCredential = [(''id'', JStr ''urn:cred:1''), (''validUntil'', JStr ''2020-01-01T00:00:00Z'')]"

definition undatedCredential :: "(string \<times> json) list" where
  "undatedCredential = [(''id'', JStr ''urn:cred:2'')]"

definition epochCredential :: "(string \<times> json) list" where
  "epochCredential = [(''id'', JStr ''urn:cred:3''), (''validUntil'', JNum 0)]"

definition acceptingRemote :: "request \<Rightarrow> js_error + response" where
  "acceptingRemote req = Inr \<lparr>data = JObj [(''status'', JStr ''verified'')]\<rparr>"

section \<open>Properties\<close>

subsection \<open>Issuer ids\<close>

text \<open>
  Where the first occurrence of each marker is the trailing one, that is, for a name
  \<open>base @ ''Verifier.js''\<close> with no earlier \<open>.js\<close> and no \<open>Verifier\<close> starting inside
  \<open>base\<close>, both name functions return what their comments say.
\<close>

lemma replace_first_occurrence:
  assumes "pat \<noteq> []"
    and "\<forall>i < length xs. take (length pat) (drop i (xs @ pat @ ys)) \<noteq> pat"
  shows "replace pat rep (xs @ pat @ ys) = xs @ rep @ ys"
  using assms(2)
proof (induction xs)
  case Nil
  from assms(1) obtain c cs where "pat @ ys = c # cs" by (cases pat) auto
  then have e: "c # cs = pat @ ys" by simp
  have "take (length pat) (c # cs) = pat" "drop (length pat) (c # cs) = ys"
    unfolding e by simp_all
  then have "replace pat rep (c # cs) = rep @ ys" by simp
  then show ?case unfolding e by simp
next
  case (Cons x xs)
  from Cons.prems have "take (length pat) (drop 0 ((x # xs) @ pat @ ys)) \<noteq> pat" by blast
  then have ne: "take (length pat) (x # xs @ pat @ ys) \<noteq> pat" by simp
  have "\<forall>i < length xs. take (length pat) (drop i (xs @ pat @ ys)) \<noteq> pat"
  proof (intro allI impI)
    fix i assume "i < length xs"
    then have "Suc i < length (x # xs)" by simp
    with Cons.prems have "take (length pat) (drop (Suc i) ((x # xs) @ pat @ ys)) \<noteq> pat" by blast
    then show "take (length pat) (drop i (xs @ pat @ ys)) \<noteq> pat" by simp
  qed
  with Cons.IH have "replace pat rep (xs @ pat @ ys) = xs @ rep @ ys" by simp
  with ne show ?case by simp
qed

lemma verifierNameToIssuerId_plain:
  assumes "\<forall>i < length base + 8. take 3 (drop i (base @ ''Verifier.js'')) \<noteq> ''.js''"
    and "\<forall>i < length base. take 8 (drop i (base @ ''Verifier'')) \<noteq> ''Verifier''"
  shows "verifierNameToIssuerId (base @ ''Verifier.js'') = toLowerCase base
         \<and> verifierNameToDisplayName (base @ ''Verifier.js'') = base"
proof -
  have e1: "(base @ ''Verifier'') @ ''.js'' @ [] = base @ ''Verifier.js''" by simp
  have l1: "length ''.js'' = 3" and l2: "length ''Verifier'' = 8" by simp_all
  have a1: "\<forall>i < length (base @ ''Verifier'').
              take (length ''.js'') (drop i ((base @ ''Verifier'') @ ''.js'' @ [])) \<noteq> ''.js''"
  proof (intro allI impI)
    fix i assume "i < length (base @ ''Verifier'')"
    then have "i < length base + 8" by simp
    with assms(1) have "take 3 (drop i (base @ ''Verifier.js'')) \<noteq> ''.js''" by blast
    then show "take (length ''.js'') (drop i ((base @ ''Verifier'') @ ''.js'' @ [])) \<noteq> ''.js''"
      unfolding e1 l1 .
  qed
  have a2: "\<forall>i < length base.
              take (length ''Verifier'') (drop i (base @ ''Verifier'' @ [])) \<noteq> ''Verifier''"
    using assms(2) unfolding l2 append_Nil2 .
  have "replace ''.js'' [] ((base @ ''Verifier'') @ ''.js'' @ []) = (base @ ''Verifier'') @ [] @ []"
    using _ a1 by (rule replace_first_occurrence) simp
  then have 1: "replace ''.js'' [] (base @ ''Verifier.js'') = base @ ''Verifier''"
    unfolding e1 by simp
  have "replace ''Verifier'' [] (base @ ''Verifier'' @ []) = base @ [] @ []"
    using _ a2 by (rule replace_first_occurrence) simp
  then have 2: "replace ''Verifier'' [] (base @ ''Verifier'') = base" by simp
  from 1 2 show ?thesis
    by (simp add: verifierNameToIssuerId_def verifierNameToDisplayName_def)
qed

text \<open>
  C1. The claim: for every file name ending in \<open>Verifier.js\<close> the derived id is the
  lowercase of the name without its \<open>Verifier\<close> suffix and \<open>.js\<close> extension, also when
  \<open>Verifier\<close> or \<open>.js\<close> occurs inside the name. The code removes the first occurrence of
  each marker, not the trailing one: \<open>VerifierHubVerifier.js\<close> ends in \<open>Verifier.js\<close>, its
  suffix-stripped lowercase name is \<open>verifierhub\<close>, and the derived id is \<open>hubverifier\<close>;
  for \<open>My.jsonVerifier.js\<close> the id is \<open>myon.js\<close> instead of \<open>my.json\<close>.
\<close>

theorem verifierNameToIssuerId_interior_marker:
  "endsWith ''VerifierHubVerifier.js'' ''Verifier.js''
   \<and> verifierNameToIssuerId ''VerifierHubVerifier.js'' = ''hubverifier''
   \<and> toLowerCase (suffixStrippedName ''VerifierHubVerifier.js'') = ''verifierhub''
   \<and> endsWith ''My.jsonVerifier.js'' ''Verifier.js''
   \<and> verifierNameToIssuerId ''My.jsonVerifier.js'' = ''myon.js''
   \<and> toLowerCase (suffixStrippedName ''My.jsonVerifier.js'') = ''my.json''"
  by code_simp

text \<open>
  What \<open>forEach\<close> leaves behind: one entry per file ending in \<open>Verifier.js\<close>, in order,
  up to the first file on which the callback throws, and that exception.
\<close>

lemma forEachFile_eq:
  "forEachFile entry mods files (acc, con) =
     ((acc @ map (\<lambda>f. fst (projr (entry f (mods f))))
              (takeWhile (\<lambda>f. \<not> isl (entry f (mods f)))
                 (filter (\<lambda>f. endsWith f ''Verifier.js'') files)),
       con @ concat (map (\<lambda>f. snd (projr (entry f (mods f))))
              (takeWhile (\<lambda>f. \<not> isl (entry f (mods f)))
                 (filter (\<lambda>f. endsWith f ''Verifier.js'') files)))),
      (case dropWhile (\<lambda>f. \<not> isl (entry f (mods f)))
              (filter (\<lambda>f. endsWith f ''Verifier.js'') files) of
         [] \<Rightarrow> None
       | f # fs \<Rightarrow> Some (projl (entry f (mods f)))))"
proof (induction files arbitrary: acc con)
  case Nil
  show ?case by simp
next
  case (Cons f files)
  show ?case
  proof (cases "endsWith f ''Verifier.js''")
    case False
    with Cons.IH show ?thesis by simp
  next
    case True
    show ?thesis
    proof (cases "entry f (mods f)")
      case (Inl e)
      with True show ?thesis by simp
    next
      case (Inr p)
      obtain x calls where p: "p = (x, calls)" by (cases p)
      from True Inr p Cons.IH[of "acc @ [x]" "con @ calls"] show ?thesis by simp
    qed
  qed
qed

lemma onlineEntry_isl: "isl (onlineEntry mf fname m) = catchThrows m"
  by (simp add: onlineEntry_def catchThrows_def case_prod_beta Let_def split: sum.splits)

lemma offlineEntry_isl: "isl (offlineEntry mf fname m) = catchThrows m"
  by (simp add: offlineEntry_def catchThrows_def case_prod_beta Let_def split: sum.splits)



lemma discoverOffline_issuers:
  "readdirSync dir = Inr files \<Longrightarrow>
   fst (discoverOfflineVerifiers mf dir) =
     map (\<lambda>f. fst (projr (offlineEntry mf f (module_of dir f)))) (listedFiles dir files)"
  by (simp add: discoverOfflineVerifiers_def forEachFile_eq offlineEntry_isl listedFiles_def
        split: option.splits list.splits)

lemma discoverOnline_issuers:
  "readdirSync dir = Inr files \<Longrightarrow>
   fst (discoverOnlineVerifiers mf dir) =
     map (\<lambda>f. fst (projr (onlineEntry mf f (module_of dir f)))) (listedFiles dir files)"
  by (simp add: discoverOnlineVerifiers_def forEachFile_eq onlineEntry_isl listedFiles_def
        split: option.splits list.splits)


lemma discoverOnline_fail:
  "readdirSync dir = Inl err \<Longrightarrow>
   discoverOnlineVerifiers mf dir =
     ([], [ConsoleError [Some ''Error discovering online verifiers:'', Some (error_message err)]])"
  by (simp add: discoverOnlineVerifiers_def)


lemma listedFiles_all:
  "\<forall>f \<in> set files. \<not> catchThrows (module_of dir f) \<Longrightarrow>
   listedFiles dir files = filter (\<lambda>f. endsWith f ''Verifier.js'') files"
  unfolding listedFiles_def by (simp add: takeWhile_eq_all_conv)



subsection \<open>Verifier selection\<close>

text \<open>Lowercasing keeps letters letters and everything else what it is.\<close>

lemma lowerChar_isLetter: "lowerChar c = lowerChar d \<Longrightarrow> isLetter c = isLetter d"
  unfolding lowerChar_def isUpper_def isLower_def isLetter_def
  by (auto split: if_splits)

lemma toLowerCase_list_all:
  "toLowerCase a = toLowerCase b \<Longrightarrow> list_all isLetter a = list_all isLetter b"
proof (induction a arbitrary: b)
  case Nil
  then show ?case by (simp add: toLowerCase_def)
next
  case (Cons c cs)
  then obtain d ds where b: "b = d # ds" by (cases b) (auto simp: toLowerCase_def)
  with Cons.prems have "lowerChar c = lowerChar d" "toLowerCase cs = toLowerCase ds"
    by (simp_all add: toLowerCase_def)
  with Cons.IH[of ds] b lowerChar_isLetter[of c d] show ?case by simp
qed

lemma toLowerCase_valid:
  "toLowerCase a = toLowerCase b \<Longrightarrow> validIssuerName a = validIssuerName b"
  using toLowerCase_list_all[of a b] by (auto simp: validIssuerName_def toLowerCase_def)

lemma toLowerCase_append: "toLowerCase (x @ y) = toLowerCase x @ toLowerCase y"
  by (simp add: toLowerCase_def)

lemma length_toLowerCase: "length (toLowerCase x) = length x"
  by (simp add: toLowerCase_def)

lemma endsWith_append: "endsWith (x @ y) y"
  by (simp add: endsWith_def)

lemma stripSuffixCI_append:
  "toLowerCase t = toLowerCase suf \<Longrightarrow> stripSuffixCI suf (x @ t) = x"
proof -
  assume h: "toLowerCase t = toLowerCase suf"
  then have "length t = length suf" by (metis length_toLowerCase)
  with h show ?thesis
    by (simp add: stripSuffixCI_def toLowerCase_append endsWith_append)
qed

lemma baseName_registered: "baseName (base @ ''Verifier.js'') = toLowerCase base"
proof -
  have 1: "stripSuffixCI ''.js'' ((base @ ''Verifier'') @ ''.js'') = base @ ''Verifier''"
    by (rule stripSuffixCI_append) simp
  have 2: "stripSuffixCI ''verifier'' (base @ ''Verifier'') = base"
    by (rule stripSuffixCI_append) code_simp
  from 1 2 show ?thesis by (simp add: baseName_def)
qed

lemma resolve_same:
  assumes "toLowerCase a = toLowerCase b"
  shows "(\<exists>c. resolveClassName listing a = Inr c \<and> resolveClassName listing b = Inr c)
         \<or> (isl (resolveClassName listing a) \<and> isl (resolveClassName listing b))"
proof -
  have v: "validIssuerName a = validIssuerName b" using assms by (rule toLowerCase_valid)
  have f: "\<And>files. findMatchingFile files a = findMatchingFile files b"
    using assms by (simp add: findMatchingFile_def)
  show ?thesis
    by (cases listing) (auto simp: resolveClassName_def v f Let_def)
qed

lemma find_first:
  "\<forall>g \<in> set pre. \<not> P g \<Longrightarrow> P x \<Longrightarrow> find P (pre @ x # post) = Some x"
  by (induction pre) simp_all

lemma stripSuffix_registered: "stripSuffix ''.js'' (base @ ''Verifier.js'') = base @ ''Verifier''"
proof -
  have "endsWith ((base @ ''Verifier'') @ ''.js'') ''.js''" by (rule endsWith_append)
  then show ?thesis by (simp add: stripSuffix_def)
qed

lemma resolve_first:
  assumes "\<forall>g \<in> set pre. baseName g \<noteq> toLowerCase base" and "validIssuerName base"
    and "toLowerCase n = toLowerCase base"
  shows "resolveClassName (Inr (pre @ (base @ ''Verifier.js'') # post)) n = Inr (base @ ''Verifier'')"
proof -
  have vn: "validIssuerName n" using assms(2,3) toLowerCase_valid[of n base] by simp
  have "findMatchingFile (pre @ (base @ ''Verifier.js'') # post) n = Some (base @ ''Verifier.js'')"
    unfolding findMatchingFile_def
    by (rule find_first) (use assms(1,3) in \<open>simp_all add: baseName_registered\<close>)
  with vn show ?thesis
    by (simp add: resolveClassName_def truthyStr_def stripSuffix_registered)
qed

text \<open>
  C5, as claimed: for every registered online variant, all issuer names that differ from
  its base name only in letter case resolve to it. The registry lists \<open>Acme2Verifier.js\<close>
  with id \<open>acme2\<close>, but the factory admits issuer names of letters only, so \<open>acme2\<close>,
  \<open>Acme2\<close> and \<open>ACME2\<close> all fail although the class would load. And the factory takes
  the first file of the listing with the lowercased base name, with or without the
  \<open>Verifier\<close> suffix: after \<open>acme.js\<close>, the name \<open>Acme\<close> resolves to the class \<open>acme\<close>,
  not to the registered \<open>AcmeVerifier\<close>.
\<close>

theorem getVerifier_case_variants_fail:
  "endsWith ''Acme2Verifier.js'' ''Verifier.js''
   \<and> verifierNameToIssuerId ''Acme2Verifier.js'' = ''acme2''
   \<and> fst (getVerifier numberedFactoryEnv \<lparr>method = Some ''online'', issuerName = Some ''acme2''\<rparr>)
       = Inl (Error ''Unknown online verifier: acme2'')
   \<and> fst (getVerifier numberedFactoryEnv \<lparr>method = Some ''online'', issuerName = Some ''Acme2''\<rparr>)
       = Inl (Error ''Unknown online verifier: Acme2'')
   \<and> fst (getVerifier numberedFactoryEnv \<lparr>method = Some ''online'', issuerName = Some ''ACME2''\<rparr>)
       = Inl (Error ''Unknown online verifier: ACME2'')
   \<and> onlineFiles shadowedFactoryEnv = Inr [''acme.js'', ''AcmeVerifier.js'']
   \<and> resolveClassName (onlineFiles shadowedFactoryEnv) ''Acme'' = Inr ''acme''"
  by code_simp

text \<open>
  C5, amended. Issuer names with the same lowercase form are treated alike: the \<^verbatim>\<open>try\<close>
  block selects the same class for both or fails for both. For a registered variant
  \<open>base @ ''Verifier.js''\<close> whose base name consists of letters and that is the first file
  of the listing with that lowercased base name, every issuer name that differs from
  \<open>base\<close> only in letter case is resolved to the class of that very file, and
  \<open>getVerifier\<close> returns its instance (or the unknown-verifier error when its constructor
  throws). For a base name with a character that is no letter, every such issuer name
  fails with the unknown-verifier error.
\<close>

theorem getVerifier_case_insensitive:
  "(toLowerCase a = toLowerCase b \<longrightarrow>
      (\<exists>c. resolveClassName listing a = Inr c \<and> resolveClassName listing b = Inr c)
      \<or> (isl (resolveClassName listing a) \<and> isl (resolveClassName listing b)))
   \<and> (onlineFiles env = Inr (pre @ (base @ ''Verifier.js'') # post)
        \<and> (\<forall>g \<in> set pre. baseName g \<noteq> toLowerCase base)
        \<and> validIssuerName base \<and> toLowerCase n = toLowerCase base
        \<and> method cfg = Some ''online'' \<and> issuerName cfg = Some n \<longrightarrow>
      resolveClassName (onlineFiles env) n = Inr (base @ ''Verifier'')
      \<and> fst (getVerifier env cfg) =
          (case loadOnline env (base @ ''Verifier'') cfg of
             Inr v \<Rightarrow> Inr (OnlineInstance (base @ ''Verifier'') v)
           | Inl e \<Rightarrow> Inl (Error (''Unknown online verifier: '' @ n))))
   \<and> (\<not> validIssuerName base \<and> base \<noteq> [] \<and> toLowerCase n = toLowerCase base
        \<and> method cfg = Some ''online'' \<and> issuerName cfg = Some n \<longrightarrow>
      fst (getVerifier env cfg) = Inl (Error (''Unknown online verifier: '' @ n)))"
proof (intro conjI impI)
  assume "toLowerCase a = toLowerCase b"
  then show "(\<exists>c. resolveClassName listing a = Inr c \<and> resolveClassName listing b = Inr c)
      \<or> (isl (resolveClassName listing a) \<and> isl (resolveClassName listing b))"
    by (rule resolve_same)
next
  assume h: "onlineFiles env = Inr (pre @ (base @ ''Verifier.js'') # post)
        \<and> (\<forall>g \<in> set pre. baseName g \<noteq> toLowerCase base)
        \<and> validIssuerName base \<and> toLowerCase n = toLowerCase base
        \<and> method cfg = Some ''online'' \<and> issuerName cfg = Some n"
  then have r: "resolveClassName (onlineFiles env) n = Inr (base @ ''Verifier'')"
    using resolve_first[of pre base n post] by simp
  from h have "validIssuerName n" using toLowerCase_valid[of n base] by simp
  then have ne: "n \<noteq> []" by (simp add: validIssuerName_def)
  from r show "resolveClassName (onlineFiles env) n = Inr (base @ ''Verifier'')" .
  from h r ne show "fst (getVerifier env cfg) =
          (case loadOnline env (base @ ''Verifier'') cfg of
             Inr v \<Rightarrow> Inr (OnlineInstance (base @ ''Verifier'') v)
           | Inl e \<Rightarrow> Inl (Error (''Unknown online verifier: '' @ n)))"
    by (simp add: getVerifier_def loadVerifier_def truthyStr_def split: sum.splits)
next
  assume h: "\<not> validIssuerName base \<and> base \<noteq> [] \<and> toLowerCase n = toLowerCase base
        \<and> method cfg = Some ''online'' \<and> issuerName cfg = Some n"
  then have nv: "\<not> validIssuerName n" using toLowerCase_valid[of n base] by simp
  from h have "length (toLowerCase n) = length (toLowerCase base)" by simp
  then have "length n = length base" unfolding length_toLowerCase .
  with h have ne: "n \<noteq> []" by auto
  from h nv ne show "fst (getVerifier env cfg) = Inl (Error (''Unknown online verifier: '' @ n))"
    by (simp add: getVerifier_def loadVerifier_def resolveClassName_def truthyStr_def)
qed

theorem getVerifier_case_insensitive_witness:
  "toLowerCase ''JHARSEVA'' = toLowerCase ''jharseva''
   \<and> resolveClassName (Inr [''JharSevaVerifier.js'']) ''jharseva'' = Inr ''JharSevaVerifier''
   \<and> resolveClassName (Inr [''JharSevaVerifier.js'']) ''JHARSEVA'' = Inr ''JharSevaVerifier''
   \<and> validIssuerName ''JharSeva''
   \<and> resolveClassName (onlineFiles exampleFactoryEnv) ''JHARSEVA'' = Inr (''JharSeva'' @ ''Verifier'')
   \<and> fst (getVerifier exampleFactoryEnv \<lparr>method = Some ''online'', issuerName = Some ''JHARSEVA''\<rparr>) =
       Inr (OnlineInstance ''JharSevaVerifier''
          \<lparr>apiEndpoint = ''https://jharseva.example/verify'', apiToken = ''secret'',
           expiryField = ''validUntil''\<rparr>)
   \<and> \<not> validIssuerName ''Acme2''
   \<and> fst (getVerifier numberedFactoryEnv \<lparr>method = Some ''online'', issuerName = Some ''ACME2''\<rparr>) =
       Inl (Error ''Unknown online verifier: ACME2'')"
proof -
  have e1: "toLowerCase ''JHARSEVA'' = toLowerCase ''jharseva''" by code_simp
  have e2: "validIssuerName ''JharSeva''" by code_simp
  have e3: "toLowerCase ''JHARSEVA'' = toLowerCase ''JharSeva''" by code_simp
  have e4: "resolveClassName (Inr [''JharSevaVerifier.js'']) ''jharseva'' = Inr ''JharSevaVerifier''"
    by code_simp
  have e5: "resolveClassName (Inr [''JharSevaVerifier.js'']) ''JHARSEVA'' = Inr ''JharSevaVerifier''"
    by code_simp
  have e6: "onlineFiles exampleFactoryEnv = Inr ([] @ (''JharSeva'' @ ''Verifier.js'') # [])"
    by (simp add: exampleFactoryEnv_def)
  have e7: "loadOnline exampleFactoryEnv (''JharSeva'' @ ''Verifier'')
              \<lparr>method = Some ''online'', issuerName = Some ''JHARSEVA''\<rparr> =
            Inr \<lparr>apiEndpoint = ''https://jharseva.example/verify'', apiToken = ''secret'',
                 expiryField = ''validUntil''\<rparr>"
    by code_simp
  have e8: "\<not> validIssuerName ''Acme2''" by code_simp
  have e9: "toLowerCase ''ACME2'' = toLowerCase ''Acme2''" by code_simp
  note t1 = getVerifier_case_insensitive[of "''JHARSEVA''" "''jharseva''" "Inr [''JharSevaVerifier.js'']"
      exampleFactoryEnv "[]" "''JharSeva''" "[]" "''JHARSEVA''"
      "\<lparr>method = Some ''online'', issuerName = Some ''JHARSEVA''\<rparr>"]
  note t2 = getVerifier_case_insensitive[of a b listing
      numberedFactoryEnv pre "''Acme2''" post "''ACME2''"
      "\<lparr>method = Some ''online'', issuerName = Some ''ACME2''\<rparr>" for a b listing pre post]
  from t1 e2 e3 e6 have c1: "resolveClassName (onlineFiles exampleFactoryEnv) ''JHARSEVA'' =
        Inr (''JharSeva'' @ ''Verifier'')"
    and c2: "fst (getVerifier exampleFactoryEnv \<lparr>method = Some ''online'', issuerName = Some ''JHARSEVA''\<rparr>) =
          (case loadOnline exampleFactoryEnv (''JharSeva'' @ ''Verifier'')
                  \<lparr>method = Some ''online'', issuerName = Some ''JHARSEVA''\<rparr> of
             Inr v \<Rightarrow> Inr (OnlineInstance (''JharSeva'' @ ''Verifier'') v)
           | Inl e \<Rightarrow> Inl (Error (''Unknown online verifier: '' @ ''JHARSEVA'')))"
    by simp_all
  from t2 e8 e9 have c3: "fst (getVerifier numberedFactoryEnv
        \<lparr>method = Some ''online'', issuerName = Some ''ACME2''\<rparr>) =
       Inl (Error ''Unknown online verifier: ACME2'')"
    by simp
  from c2 e7 have c2': "fst (getVerifier exampleFactoryEnv \<lparr>method = Some ''online'', issuerName = Some ''JHARSEVA''\<rparr>) =
       Inr (OnlineInstance ''JharSevaVerifier''
          \<lparr>apiEndpoint = ''https://jharseva.example/verify'', apiToken = ''secret'',
           expiryField = ''validUntil''\<rparr>)"
    by simp
  from e1 e4 e5 e2 c1 c2' e8 c3 show ?thesis by simp
qed

text \<open>
  C3, as claimed: a malformed issuer name fails with a validation error that a caller can
  tell from the unknown-verifier error. It cannot: the format check throws inside the
  \<^verbatim>\<open>try\<close> block, whose \<^verbatim>\<open>catch\<close> replaces every error by the unknown-verifier
  error. The malformed name \<open>acme-1\<close> and the well-formed, unsupported name \<open>acme\<close> fail
  with the same error, each with its own name appended.
\<close>

theorem getVerifier_malformed_not_distinct:
  "\<not> validIssuerName ''acme-1''
   \<and> fst (getVerifier exampleFactoryEnv \<lparr>method = Some ''online'', issuerName = Some ''acme-1''\<rparr>)
       = Inl (Error ''Unknown online verifier: acme-1'')
   \<and> validIssuerName ''acme''
   \<and> fst (getVerifier exampleFactoryEnv \<lparr>method = Some ''online'', issuerName = Some ''acme''\<rparr>)
       = Inl (Error ''Unknown online verifier: acme'')"
  by code_simp

text \<open>
  C3, amended: with method \<open>online\<close>, a non-empty issuer name that does not match
  \<^verbatim>\<open>^[a-zA-Z]+$\<close> fails with \<open>Unknown online verifier: <issuerName>\<close>, the error an
  unsupported issuer fails with; the message \<open>Invalid verifier name format\<close> only reaches
  the console, outside production. Only an empty or missing issuer name fails with the
  distinct error \<open>issuerName is required for online verification\<close>.
\<close>

theorem getVerifier_malformed_issuerName:
  "(method cfg = Some ''online'' \<and> issuerName cfg = Some n \<and> \<not> validIssuerName n \<longrightarrow>
      getVerifier env cfg =
        (if n = [] then (Inl (Error ''issuerName is required for online verification''), [])
         else (Inl (Error (''Unknown online verifier: '' @ n)),
               if nodeEnv env \<noteq> Some ''production''
               then [ErrorLine ''Error loading verifier: Invalid verifier name format''] else [])))
   \<and> (method cfg' = Some ''online'' \<and> issuerName cfg' = Some u \<and> validIssuerName u
        \<and> onlineFiles env = Inr files \<and> findMatchingFile files u = None \<longrightarrow>
      fst (getVerifier env cfg') = Inl (Error (''Unknown online verifier: '' @ u)))
   \<and> (method cfg = Some ''online'' \<and> issuerName cfg = None \<longrightarrow>
      getVerifier env cfg = (Inl (Error ''issuerName is required for online verification''), []))"
  by (auto simp: getVerifier_def loadVerifier_def resolveClassName_def truthyStr_def
        validIssuerName_def)

theorem getVerifier_malformed_issuerName_witness:
  "\<not> validIssuerName ''acme-1''
   \<and> getVerifier exampleFactoryEnv \<lparr>method = Some ''online'', issuerName = Some ''acme-1''\<rparr>
       = (Inl (Error ''Unknown online verifier: acme-1''),
          [ErrorLine ''Error loading verifier: Invalid verifier name format''])
   \<and> validIssuerName ''acme'' \<and> findMatchingFile [''JharSevaVerifier.js''] ''acme'' = None
   \<and> fst (getVerifier exampleFactoryEnv \<lparr>method = Some ''online'', issuerName = Some ''acme''\<rparr>)
       = Inl (Error ''Unknown online verifier: acme'')
   \<and> getVerifier exampleFactoryEnv \<lparr>method = Some ''online'', issuerName = None\<rparr>
       = (Inl (Error ''issuerName is required for online verification''), [])"
proof -
  have e1: "\<not> validIssuerName ''acme-1''" by code_simp
  have e2: "validIssuerName ''acme''" by code_simp
  have e3: "findMatchingFile [''JharSevaVerifier.js''] ''acme'' = None" by code_simp
  have e4: "onlineFiles exampleFactoryEnv = Inr [''JharSevaVerifier.js'']"
    and e5: "nodeEnv exampleFactoryEnv \<noteq> Some ''production''"
    by (simp_all add: exampleFactoryEnv_def configuredEnv_def)
  note t = getVerifier_malformed_issuerName[of
      "\<lparr>method = Some ''online'', issuerName = Some ''acme-1''\<rparr>" "''acme-1''" exampleFactoryEnv
      "\<lparr>method = Some ''online'', issuerName = Some ''acme''\<rparr>" "''acme''" "[''JharSevaVerifier.js'']"]
  note t' = getVerifier_malformed_issuerName[of
      "\<lparr>method = Some ''online'', issuerName = None\<rparr>" n exampleFactoryEnv cfg' u files for n cfg' u files]
  from t e1 e2 e3 e4 e5 t' show ?thesis by simp
qed

text \<open>
  C10. A config without the \<open>method\<close> key is handled as method \<open>online\<close>: the empty
  config fails with the issuerName-required error; with an issuer name \<open>n\<close> the result is
  that of the online branch, the \<^verbatim>\<open>try\<close> block run on \<open>n\<close> and its \<^verbatim>\<open>catch\<close>; and
  the unknown-method error never occurs.
\<close>

theorem getVerifier_default_method:
  "getVerifier env \<lparr>method = None, issuerName = None\<rparr> =
     (Inl (Error ''issuerName is required for online verification''), [])
   \<and> (method cfg = None \<and> issuerName cfg = Some n \<and> n \<noteq> [] \<longrightarrow>
        getVerifier env cfg =
          (case loadVerifier env cfg n of
             Inr v \<Rightarrow> (Inr v, [])
           | Inl err \<Rightarrow>
               (Inl (Error (''Unknown online verifier: '' @ n)),
                if nodeEnv env \<noteq> Some ''production''
                then [ErrorLine (''Error loading verifier: '' @ error_message err)] else [])))
   \<and> (method cfg = None \<longrightarrow>
        (\<forall>m. fst (getVerifier env cfg) \<noteq> Inl (Error (''Unknown verification method: '' @ m))))"
  by (auto simp: getVerifier_def truthyStr_def split: sum.splits)


theorem getVerifier_default_method_witness:
  "getVerifier exampleFactoryEnv \<lparr>method = None, issuerName = Some ''jharseva''\<rparr> =
     (Inr (OnlineInstance ''JharSevaVerifier''
        \<lparr>apiEndpoint = ''https://jharseva.example/verify'', apiToken = ''secret'',
         expiryField = ''validUntil''\<rparr>), [])
   \<and> fst (getVerifier exampleFactoryEnv \<lparr>method = None, issuerName = Some ''jharseva''\<rparr>) \<noteq>
       Inl (Error (''Unknown verification method: '' @ ''online''))"
proof -
  have l: "loadVerifier exampleFactoryEnv \<lparr>method = None, issuerName = Some ''jharseva''\<rparr> ''jharseva'' =
      Inr (OnlineInstance ''JharSevaVerifier''
        \<lparr>apiEndpoint = ''https://jharseva.example/verify'', apiToken = ''secret'',
         expiryField = ''validUntil''\<rparr>)"
    by code_simp
  note t = getVerifier_default_method[of exampleFactoryEnv
      "\<lparr>method = None, issuerName = Some ''jharseva''\<rparr>" "''jharseva''"]
  from t l show ?thesis by simp
qed

subsection \<open>Discovery and failures\<close>

text \<open>
  What the fallback does when the thrown value has a readable message: the entry is
  recorded with the scanned title, or the file name without extension; and when no
  \<^verbatim>\<open>catch\<close> block throws, every file ending in \<open>Verifier.js\<close> has its entry.
\<close>

lemma fallbackTitle_title:
  "fst (fallbackTitle fname m msg) =
     (case readFileSync m of
        Inr fileContent \<Rightarrow>
          (case extractTitle fileContent of Some t \<Rightarrow> t | None \<Rightarrow> basename fname ''.js'')
      | Inl readError \<Rightarrow> basename fname ''.js'')"
  by (simp add: fallbackTitle_def Let_def split: sum.splits option.splits)

lemma discovery_complete:
  assumes "readdirSync dir = Inr files" and "\<forall>f \<in> set files. \<not> catchThrows (module_of dir f)"
  shows "length (fst (discoverOnlineVerifiers mf dir)) =
           length (filter (\<lambda>f. endsWith f ''Verifier.js'') files)
         \<and> length (fst (discoverOfflineVerifiers mf dir)) =
           length (filter (\<lambda>f. endsWith f ''Verifier.js'') files)"
  using assms by (simp add: discoverOnline_issuers discoverOffline_issuers listedFiles_all)

lemma discovery_fallback:
  assumes "readdirSync dir = Inr files" and "fname \<in> set (listedFiles dir files)"
    and "instantiate (module_of dir fname) = Inl err" and "thrownMessage err = Inr msg"
  shows "\<exists>e \<in> set (fst (discoverOnlineVerifiers mf dir)).
           issuer_id e = verifierNameToIssuerId fname
           \<and> issuer_title e =
               (case readFileSync (module_of dir fname) of
                  Inr fileContent \<Rightarrow>
                    (case extractTitle fileContent of
                       Some t \<Rightarrow> t | None \<Rightarrow> basename fname ''.js'')
                | Inl readError \<Rightarrow> basename fname ''.js'')"
proof -
  let ?e = "fst (projr (onlineEntry mf fname (module_of dir fname)))"
  have "?e \<in> set (fst (discoverOnlineVerifiers mf dir))"
    using assms(1,2) by (simp add: discoverOnline_issuers)
  moreover have "issuer_id ?e = verifierNameToIssuerId fname
      \<and> issuer_title ?e = fst (fallbackTitle fname (module_of dir fname) msg)"
    using assms(3,4) by (simp add: onlineEntry_def case_prod_beta)
  ultimately show ?thesis unfolding fallbackTitle_title by blast
qed

text \<open>
  C9. The claim: discovery never throws, a failed listing is logged and gives the empty
  list, and a verifier that cannot be instantiated is still recorded, never aborting the
  listing. The first two parts hold (\<open>discoverOnline_fail\<close>, \<open>discoverOffline_fail\<close>; the
  functions return in every case). The third fails when the value thrown is \<^verbatim>\<open>null\<close> or
  \<^verbatim>\<open>undefined\<close>: the \<^verbatim>\<open>catch\<close> block reads \<^verbatim>\<open>error.message\<close> unguarded, the
  TypeError of that read leaves the loop, and the outer \<^verbatim>\<open>catch\<close> logs it and returns
  what was pushed before. Of three verifier files, the second throwing \<^verbatim>\<open>null\<close>, only
  the first is listed: neither the second (by fallback) nor the third.
\<close>

theorem discovery_aborts_on_thrown_null:
  "filter (\<lambda>f. endsWith f ''Verifier.js'') [''aaVerifier.js'', ''bbVerifier.js'', ''ccVerifier.js'']
     = [''aaVerifier.js'', ''bbVerifier.js'', ''ccVerifier.js'']
   \<and> map issuer_id (fst (discoverOnlineVerifiers None nullThrowDir)) = [''aa'']
   \<and> snd (discoverOnlineVerifiers None nullThrowDir) =
       [ConsoleError [Some ''Error discovering online verifiers:'',
                      Some ''Cannot read properties of null (reading 'message')'']]
   \<and> map issuer_id (fst (discoverOfflineVerifiers None nullThrowDir)) = [''aa'']
   \<and> snd (discoverOfflineVerifiers None nullThrowDir) =
       [ConsoleError [Some ''Error discovering offline verifiers:'',
                      Some ''Cannot read properties of null (reading 'message')'']]"
  by code_simp

subsection \<open>Response translation\<close>

text \<open>
  C7. A remote response without an error field translates to the success result, which
  has no \<open>errors\<close> key.
\<close>

theorem translateResponse_no_error:
  "responseError resp = None \<Longrightarrow>
   translateResponse resp =
     Inr \<lparr>success = True, message = ''Credential verified successfully.'', errors = None\<rparr>"
  by (simp add: translateResponse_def formatErrors_def)

theorem translateResponse_no_error_witness:
  "responseError \<lparr>data = JObj [(''status'', JStr ''verified'')]\<rparr> = None
   \<and> translateResponse \<lparr>data = JObj [(''status'', JStr ''verified'')]\<rparr> =
     Inr \<lparr>success = True, message = ''Credential verified successfully.'', errors = None\<rparr>"
proof -
  have h: "responseError \<lparr>data = JObj [(''status'', JStr ''verified'')]\<rparr> = None"
    by (simp add: responseError_def)
  from h translateResponse_no_error[OF h] show ?thesis by simp
qed

text \<open>
  C8, as claimed: for every response with two error entries, each translated entry carries
  the dictionary translation of its phrase (or the generic message) and the phrase itself
  as \<open>raw\<close>. The code reads the phrase from the \<open>message\<close> property of an entry and
  falls back to a default when that is missing or empty: two entries that are the phrases
  themselves are both reported as unknown errors with the default \<open>raw\<close>, and an entry
  with an empty message gets the default \<open>raw\<close>, not its own.
\<close>

theorem translateResponse_entries_without_message:
  "translateResponse
     \<lparr>data = JObj [(''error'', JArr [JStr ''Invalid credential'', JStr ''Invalid signature''])]\<rparr> =
   Inr \<lparr>success = False, message = ''Credential verification failed.'',
        errors = Some
          [\<lparr>error = Text ''An unknown error occurred during verification.'',
            raw = JStr ''An unknown error occurred''\<rparr>,
           \<lparr>error = Text ''An unknown error occurred during verification.'',
            raw = JStr ''An unknown error occurred''\<rparr>]\<rparr>
   \<and> translateResponse
     \<lparr>data = JObj [(''error'', JArr [JObj [(''message'', JStr '''')],
                                      JObj [(''message'', JStr ''Invalid credential'')]])]\<rparr> =
   Inr \<lparr>success = False, message = ''Credential verification failed.'',
        errors = Some
          [\<lparr>error = Text ''An unknown error occurred during verification.'',
            raw = JStr ''An unknown error occurred''\<rparr>,
           \<lparr>error = Text ''The credential format is invalid or incomplete.'',
            raw = JStr ''Invalid credential''\<rparr>]\<rparr>"
  by code_simp

text \<open>
  A dictionary read with a key that names a member of \<open>Object.prototype\<close> returns that
  member, which is truthy: the \<open>error\<close> field is then no text at all. And an entry that is
  \<^verbatim>\<open>null\<close> makes the translation throw. The amended claim below leaves both out.
\<close>

lemma translateResponse_inherited_member:
  "translateResponse
     \<lparr>data = JObj [(''error'', JArr [JObj [(''message'', JStr ''constructor'')],
                                      JObj [(''message'', JStr ''Invalid credential'')]])]\<rparr> =
   Inr \<lparr>success = False, message = ''Credential verification failed.'',
        errors = Some
          [\<lparr>error = Member ''constructor'', raw = JStr ''constructor''\<rparr>,
           \<lparr>error = Text ''The credential format is invalid or incomplete.'',
            raw = JStr ''Invalid credential''\<rparr>]\<rparr>"
  by code_simp

lemma translateResponse_null_entry:
  "responseError resp = Some (JArr (JNull # xs)) \<Longrightarrow>
   translateResponse resp = Inl (Error ''Cannot read properties of null (reading 'message')'')"
  by (simp add: translateResponse_def formatErrors_def pushError_def errObjMessage_def)

lemma getProp_translator:
  "m \<notin> set objectPrototypeKeys \<Longrightarrow>
   getProp errorTranslator m =
     (case map_of errorTranslator m of Some t \<Rightarrow> Own t | None \<Rightarrow> Undefined)"
  by (simp add: getProp_def)

lemma translateMessage_absent:
  "translateMessage None = Inr (Text ''An unknown error occurred during verification.'')"
  by code_simp

lemma translateMessage_empty:
  "translateMessage (Some (JStr [])) = Inr (Text ''An unknown error occurred during verification.'')"
  by code_simp

lemma translateMessage_phrase:
  "m \<notin> set objectPrototypeKeys \<Longrightarrow>
   translateMessage (Some (JStr m)) =
     Inr (Text (case map_of errorTranslator m of
                  Some t \<Rightarrow> t
                | None \<Rightarrow> ''An unknown error occurred during verification.''))"
  by (simp add: translateMessage_def propertyKey_def getProp_translator split: option.splits)

lemma pushError_entry:
  assumes "x \<noteq> JNull"
    and "\<forall>v. errObjMessage x = Inr (Some v) \<longrightarrow> (\<exists>m. v = JStr m)"
    and "\<forall>m. entryPhrase x = Some m \<longrightarrow> m \<notin> set objectPrototypeKeys"
  shows "pushError x =
     Inr \<lparr>error = Text (case entryPhrase x of
                          Some m \<Rightarrow> (case map_of errorTranslator m of
                                       Some t \<Rightarrow> t
                                     | None \<Rightarrow> ''An unknown error occurred during verification.'')
                        | None \<Rightarrow> ''An unknown error occurred during verification.''),
          raw = JStr (case entryPhrase x of
                        Some m \<Rightarrow> m | None \<Rightarrow> ''An unknown error occurred'')\<rparr>"
proof -
  from assms(1) obtain msg where msg: "errObjMessage x = Inr msg"
    by (cases x) (simp_all add: errObjMessage_def)
  show ?thesis
  proof (cases msg)
    case None
    with msg show ?thesis
      by (simp add: pushError_def entryPhrase_def translateMessage_absent truthyOpt_def)
  next
    case (Some v)
    with msg assms(2) obtain m where v: "v = JStr m" by blast
    show ?thesis
    proof (cases "m = []")
      case True
      with msg Some v show ?thesis
        by (simp add: pushError_def entryPhrase_def translateMessage_empty truthyOpt_def)
    next
      case False
      with msg Some v have "entryPhrase x = Some m" by (simp add: entryPhrase_def)
      with assms(3) have np: "m \<notin> set objectPrototypeKeys" by blast
      from msg Some v False np show ?thesis
        by (simp add: pushError_def entryPhrase_def translateMessage_phrase truthyOpt_def)
    qed
  qed
qed

text \<open>
  C8, amended: when the error field of the response is an array of two entries, neither of
  them \<^verbatim>\<open>null\<close>, the message of each being absent or a string (that does not name a
  member of \<open>Object.prototype\<close>), the result is a failure whose \<open>errors\<close> has length 2.
  An entry with a non-empty message has as \<open>error\<close> the dictionary translation of the
  message, or the generic unknown-error message when the dictionary has none, and as
  \<open>raw\<close> the message. An entry with an empty message or with none (an object without
  that property, a plain string, a number) has the generic unknown-error message as
  \<open>error\<close> and the default \<open>An unknown error occurred\<close> as \<open>raw\<close>.
\<close>

theorem translateResponse_two_errors:
  assumes "responseError resp = Some (JArr [x1, x2])"
    and "x1 \<noteq> JNull" and "x2 \<noteq> JNull"
    and "\<forall>v. errObjMessage x1 = Inr (Some v) \<longrightarrow> (\<exists>m. v = JStr m)"
    and "\<forall>v. errObjMessage x2 = Inr (Some v) \<longrightarrow> (\<exists>m. v = JStr m)"
    and "\<forall>m. entryPhrase x1 = Some m \<longrightarrow> m \<notin> set objectPrototypeKeys"
    and "\<forall>m. entryPhrase x2 = Some m \<longrightarrow> m \<notin> set objectPrototypeKeys"
  shows "translateResponse resp =
     Inr \<lparr>success = False, message = ''Credential verification failed.'',
          errors = Some
            [\<lparr>error = Text (case entryPhrase x1 of
                               Some m \<Rightarrow> (case map_of errorTranslator m of
                                            Some t \<Rightarrow> t
                                          | None \<Rightarrow> ''An unknown error occurred during verification.'')
                             | None \<Rightarrow> ''An unknown error occurred during verification.''),
              raw = JStr (case entryPhrase x1 of
                            Some m \<Rightarrow> m | None \<Rightarrow> ''An unknown error occurred'')\<rparr>,
             \<lparr>error = Text (case entryPhrase x2 of
                               Some m \<Rightarrow> (case map_of errorTranslator m of
                                            Some t \<Rightarrow> t
                                          | None \<Rightarrow> ''An unknown error occurred during verification.'')
                             | None \<Rightarrow> ''An unknown error occurred during verification.''),
              raw = JStr (case entryPhrase x2 of
                            Some m \<Rightarrow> m | None \<Rightarrow> ''An unknown error occurred'')\<rparr>]\<rparr>"
proof -
  note p1 = pushError_entry[OF assms(2,4,6)]
  note p2 = pushError_entry[OF assms(3,5,7)]
  show ?thesis
    by (simp add: translateResponse_def formatErrors_def assms(1) p1 p2)
qed

theorem translateResponse_two_errors_witness:
  "entryPhrase (JObj [(''message'', JStr ''Invalid signature'')]) = Some ''Invalid signature''
   \<and> entryPhrase (JObj [(''code'', JNum 429)]) = None
   \<and> translateResponse
     \<lparr>data = JObj [(''error'', JArr [JObj [(''message'', JStr ''Invalid signature'')],
                                      JObj [(''code'', JNum 429)]])]\<rparr> =
   Inr \<lparr>success = False, message = ''Credential verification failed.'',
        errors = Some
          [\<lparr>error = Text ''The credential's signature is invalid or has been tampered with.'',
            raw = JStr ''Invalid signature''\<rparr>,
           \<lparr>error = Text ''An unknown error occurred during verification.'',
            raw = JStr ''An unknown error occurred''\<rparr>]\<rparr>
   \<and> entryPhrase (JObj [(''message'', JStr ''Quota exceeded'')]) = Some ''Quota exceeded''
   \<and> entryPhrase (JStr ''Invalid credential'') = None
   \<and> translateResponse
     \<lparr>data = JObj [(''error'', JArr [JObj [(''message'', JStr ''Quota exceeded'')],
                                      JStr ''Invalid credential''])]\<rparr> =
   Inr \<lparr>success = False, message = ''Credential verification failed.'',
        errors = Some
          [\<lparr>error = Text ''An unknown error occurred during verification.'',
            raw = JStr ''Quota exceeded''\<rparr>,
           \<lparr>error = Text ''An unknown error occurred during verification.'',
            raw = JStr ''An unknown error occurred''\<rparr>]\<rparr>"
proof -
  let ?a = "JObj [(''message'', JStr ''Invalid signature'')]"
  let ?b = "JObj [(''code'', JNum 429)]"
  let ?c = "JObj [(''message'', JStr ''Quota exceeded'')]"
  let ?d = "JStr ''Invalid credential''"
  have r1: "responseError \<lparr>data = JObj [(''error'', JArr [?a, ?b])]\<rparr> = Some (JArr [?a, ?b])"
    and r2: "responseError \<lparr>data = JObj [(''error'', JArr [?c, ?d])]\<rparr> = Some (JArr [?c, ?d])"
    by (simp_all add: responseError_def)
  have n: "?a \<noteq> JNull" "?b \<noteq> JNull" "?c \<noteq> JNull" "?d \<noteq> JNull" by simp_all
  have ma: "\<forall>v. errObjMessage ?a = Inr (Some v) \<longrightarrow> (\<exists>m. v = JStr m)"
    and mb: "\<forall>v. errObjMessage ?b = Inr (Some v) \<longrightarrow> (\<exists>m. v = JStr m)"
    and mc: "\<forall>v. errObjMessage ?c = Inr (Some v) \<longrightarrow> (\<exists>m. v = JStr m)"
    and md: "\<forall>v. errObjMessage ?d = Inr (Some v) \<longrightarrow> (\<exists>m. v = JStr m)"
    by (simp_all add: errObjMessage_def)
  have pa: "entryPhrase ?a = Some ''Invalid signature''"
    and pb: "entryPhrase ?b = None"
    and pc: "entryPhrase ?c = Some ''Quota exceeded''"
    and pd: "entryPhrase ?d = None"
    by (simp_all add: entryPhrase_def errObjMessage_def)
  have ka: "\<forall>m. entryPhrase ?a = Some m \<longrightarrow> m \<notin> set objectPrototypeKeys"
    and kb: "\<forall>m. entryPhrase ?b = Some m \<longrightarrow> m \<notin> set objectPrototypeKeys"
    and kc: "\<forall>m. entryPhrase ?c = Some m \<longrightarrow> m \<notin> set objectPrototypeKeys"
    and kd: "\<forall>m. entryPhrase ?d = Some m \<longrightarrow> m \<notin> set objectPrototypeKeys"
    unfolding pa pb pc pd by (simp_all add: objectPrototypeKeys_def)
  have t1: "map_of errorTranslator ''Invalid signature'' =
              Some ''The credential's signature is invalid or has been tampered with.''"
    and t2: "map_of errorTranslator ''Quota exceeded'' = None"
    by (simp_all add: errorTranslator_def)
  from translateResponse_two_errors[OF r1 n(1) n(2) ma mb ka kb]
       translateResponse_two_errors[OF r2 n(3) n(4) mc md kc kd]
       pa pb pc pd t1 t2
  show ?thesis by simp
qed

subsection \<open>Verification results\<close>

text \<open>
  The presence test of \<open>checkExpiry\<close> is a truthiness test: an expiry field holding
  \<^verbatim>\<open>null\<close>, \<^verbatim>\<open>false\<close>, \<^verbatim>\<open>0\<close> or the empty string is handled like a missing one. A
  value that cannot be converted for the date fails the check through the \<^verbatim>\<open>catch\<close>.
\<close>

lemma checkExpiry_falsy:
  "getProp obj (expiryField self) = Own v \<Longrightarrow> \<not> truthy v \<Longrightarrow>
   checkExpiry self clk (Some obj) = Valid"
  by (simp add: checkExpiry_def)

lemma checkExpiry_conversion_error:
  "getProp obj (expiryField self) = Own v \<Longrightarrow> toPrimitiveThrows v \<Longrightarrow>
   checkExpiry self clk (Some obj) =
     Invalid ''Error checking credential expiry: Cannot convert object to primitive value''"
  by (cases v) (auto simp: checkExpiry_def newDate_def toPrimitiveError_def)

text \<open>
  C6, as claimed: every credential whose expiry field parses as a date in the past is
  refused with the expiry error, without a network call. The number 0 is the date
  1970-01-01, in the past, but it is falsy: the check is skipped, the request is sent and
  the credential is verified.
\<close>

theorem verify_epoch_not_expired:
  "getProp epochCredential (expiryField exampleSelf) = Own (JNum 0)
   \<and> newDate exampleClock (JNum 0) = Inr (Some 0)
   \<and> 0 < now exampleClock
   \<and> verify exampleSelf exampleClock acceptingRemote (Some epochCredential) =
        (\<lparr>success = True, message = ''Credential verified successfully.'', errors = None\<rparr>,
         [\<lparr>url = ''https://jharseva.example/verify'', body = Some epochCredential,
           authorization = ''Bearer secret'', contentType = ''application/json''\<rparr>])"
  by code_simp

text \<open>
  C6, amended. When the expiry field of the credential holds a truthy value and
  \<^verbatim>\<open>new Date\<close> of it is a date before now, \<open>verify\<close> returns the failure with the expiry
  error and sends no request. When the credential has no expiry field, or a falsy value in
  it, the check passes and exactly one request is sent, with the credential as body; the
  result is then the translation of the response.
\<close>

theorem verify_expiry:
  "(getProp obj (expiryField self) = Own v \<and> truthy v
      \<and> newDate clk v = Inr (Some t) \<and> t < now clk \<longrightarrow>
      verify self clk post (Some obj) =
        (\<lparr>success = False, message = ''Credential verification failed.'',
          errors = Some [\<lparr>error = Text ''The credential has expired and is no longer valid.'',
                          raw = JStr ''Credential expiration check failed''\<rparr>]\<rparr>, []))
   \<and> (getProp obj (expiryField self) = Undefined
        \<or> (\<exists>w. getProp obj (expiryField self) = Own w \<and> \<not> truthy w) \<longrightarrow>
      checkExpiry self clk (Some obj) = Valid
      \<and> snd (verify self clk post (Some obj)) =
          [\<lparr>url = apiEndpoint self, body = Some obj,
            authorization = ''Bearer '' @ apiToken self, contentType = ''application/json''\<rparr>]
      \<and> (\<forall>resp r. post \<lparr>url = apiEndpoint self, body = Some obj,
                         authorization = ''Bearer '' @ apiToken self,
                         contentType = ''application/json''\<rparr> = Inr resp
                 \<and> translateResponse resp = Inr r \<longrightarrow>
                 fst (verify self clk post (Some obj)) = r))"
  by (auto simp: verify_def checkExpiry_def Let_def split: sum.splits)

theorem verify_expiry_witness:
  "getProp expiredCredential (expiryField exampleSelf) = Own (JStr ''2020-01-01T00:00:00Z'')
   \<and> newDate exampleClock (JStr ''2020-01-01T00:00:00Z'') = Inr (Some 1577836800000)
   \<and> 1577836800000 < now exampleClock
   \<and> verify exampleSelf exampleClock acceptingRemote (Some expiredCredential) =
        (\<lparr>success = False, message = ''Credential verification failed.'',
          errors = Some [\<lparr>error = Text ''The credential has expired and is no longer valid.'',
                          raw = JStr ''Credential expiration check failed''\<rparr>]\<rparr>, [])
   \<and> getProp undatedCredential (expiryField exampleSelf) = Undefined
   \<and> checkExpiry exampleSelf exampleClock (Some undatedCredential) = Valid
   \<and> snd (verify exampleSelf exampleClock acceptingRemote (Some undatedCredential)) =
        [\<lparr>url = ''https://jharseva.example/verify'', body = Some undatedCredential,
          authorization = ''Bearer secret'', contentType = ''application/json''\<rparr>]
   \<and> fst (verify exampleSelf exampleClock acceptingRemote (Some undatedCredential)) =
        \<lparr>success = True, message = ''Credential verified successfully.'', errors = None\<rparr>
   \<and> getProp epochCredential (expiryField exampleSelf) = Own (JNum 0)
   \<and> checkExpiry exampleSelf exampleClock (Some epochCredential) = Valid
   \<and> snd (verify exampleSelf exampleClock acceptingRemote (Some epochCredential)) =
        [\<lparr>url = ''https://jharseva.example/verify'', body = Some epochCredential,
          authorization = ''Bearer secret'', contentType = ''application/json''\<rparr>]"
proof -
  have g1: "getProp expiredCredential (expiryField exampleSelf) = Own (JStr ''2020-01-01T00:00:00Z'')"
    by code_simp
  have g2: "getProp undatedCredential (expiryField exampleSelf) = Undefined"
    by code_simp
  have g3: "getProp epochCredential (expiryField exampleSelf) = Own (JNum 0)"
    by code_simp
  have d: "newDate exampleClock (JStr ''2020-01-01T00:00:00Z'') = Inr (Some 1577836800000)"
    by code_simp
  have n: "(1577836800000::int) < now exampleClock"
    and tr: "truthy (JStr ''2020-01-01T00:00:00Z'')"
    and fz: "\<not> truthy (JNum 0)"
    by (simp_all add: exampleClock_def)
  have f: "apiEndpoint exampleSelf = ''https://jharseva.example/verify''"
    "apiToken exampleSelf = ''secret''"
    by (simp_all add: exampleSelf_def)
  have p: "acceptingRemote \<lparr>url = apiEndpoint exampleSelf, body = Some undatedCredential,
              authorization = ''Bearer '' @ apiToken exampleSelf,
              contentType = ''application/json''\<rparr> = Inr \<lparr>data = JObj [(''status'', JStr ''verified'')]\<rparr>"
    by (simp add: acceptingRemote_def)
  have tl: "translateResponse \<lparr>data = JObj [(''status'', JStr ''verified'')]\<rparr> =
      Inr \<lparr>success = True, message = ''Credential verified successfully.'', errors = None\<rparr>"
    by code_simp
  note t1 = verify_expiry[of expiredCredential exampleSelf "JStr ''2020-01-01T00:00:00Z''"
      exampleClock 1577836800000 acceptingRemote]
  note t2 = verify_expiry[of undatedCredential exampleSelf v exampleClock t acceptingRemote for v t]
  note t3 = verify_expiry[of epochCredential exampleSelf v exampleClock t acceptingRemote for v t]
  from t1 g1 d n tr have c1: "verify exampleSelf exampleClock acceptingRemote (Some expiredCredential) =
        (\<lparr>success = False, message = ''Credential verification failed.'',
          errors = Some [\<lparr>error = Text ''The credential has expired and is no longer valid.'',
                          raw = JStr ''Credential expiration check failed''\<rparr>]\<rparr>, [])"
    by simp
  from t2 g2 have c2: "checkExpiry exampleSelf exampleClock (Some undatedCredential) = Valid"
    and c3: "snd (verify exampleSelf exampleClock acceptingRemote (Some undatedCredential)) =
        [\<lparr>url = apiEndpoint exampleSelf, body = Some undatedCredential,
          authorization = ''Bearer '' @ apiToken exampleSelf, contentType = ''application/json''\<rparr>]"
    and c4: "\<forall>resp r. acceptingRemote \<lparr>url = apiEndpoint exampleSelf, body = Some undatedCredential,
                         authorization = ''Bearer '' @ apiToken exampleSelf,
                         contentType = ''application/json''\<rparr> = Inr resp
                 \<and> translateResponse resp = Inr r \<longrightarrow>
                 fst (verify exampleSelf exampleClock acceptingRemote (Some undatedCredential)) = r"
    by blast+
  from c4 p tl have c5: "fst (verify exampleSelf exampleClock acceptingRemote (Some undatedCredential)) =
        \<lparr>success = True, message = ''Credential verified successfully.'', errors = None\<rparr>"
    by blast
  from t3 g3 fz have c6: "checkExpiry exampleSelf exampleClock (Some epochCredential) = Valid"
    and c7: "snd (verify exampleSelf exampleClock acceptingRemote (Some epochCredential)) =
        [\<lparr>url = apiEndpoint exampleSelf, body = Some epochCredential,
          authorization = ''Bearer '' @ apiToken exampleSelf, contentType = ''application/json''\<rparr>]"
    by blast+
  from g1 d n c1 g2 c2 c3 c5 g3 c6 c7 f show ?thesis by simp
qed

text \<open>
  The online verifier keeps the contract of \<^verbatim>\<open>VerifierInterface.verify\<close>: its result has
  a non-empty \<open>errors\<close> exactly when it is a failure (each failing path, expiry check,
  remote errors or a caught exception, builds at least one entry), and no \<open>errors\<close> key
  when it is a success.
\<close>

lemma translateResponse_shape:
  "translateResponse resp = Inr r \<Longrightarrow>
   (success r \<and> errors r = None) \<or> (\<not> success r \<and> (\<exists>es. errors r = Some es \<and> es \<noteq> []))"
  by (auto simp: translateResponse_def split: sum.splits if_splits)

lemma verify_errors_iff_failure:
  "((\<exists>es. errors (fst (verify self clk post credential)) = Some es \<and> es \<noteq> [])
      \<longleftrightarrow> \<not> success (fst (verify self clk post credential)))
   \<and> (success (fst (verify self clk post credential)) \<longrightarrow>
        errors (fst (verify self clk post credential)) = None)"
  unfolding verify_def Let_def
  by (auto split: expiry_check.splits sum.splits dest: translateResponse_shape)


end
